theory Spec2Isabelle
  imports Complex_Main "HOL-Library.Word"
begin

unbundle bit_operations_syntax

section \<open>ActionEncoder: \<open>NESendoGUI.init_keymapping\<close> and \<open>NESendoGUI.update_action\<close>\<close>

text \<open>
  Keys are the integer codes of Qt's \<open>Qt.Key\<close> enumeration. The eight codes the
  mapping table uses are the documented values of the Qt 5 enumeration.
\<close>

definition Key_W :: int where "Key_W = 0x57"
definition Key_A :: int where "Key_A = 0x41"
definition Key_S :: int where "Key_S = 0x53"
definition Key_D :: int where "Key_D = 0x44"
definition Key_O :: int where "Key_O = 0x4f"
definition Key_P :: int where "Key_P = 0x50"
definition Key_Return :: int where "Key_Return = 0x01000004"
definition Key_Space :: int where "Key_Space = 0x20"

text \<open>
  \<open>init_keymapping\<close> (gui.py 844-859): the dictionary literal, in the order of the source.
  Python integers are unbounded, so the bit values are \<open>int\<close>.
\<close>

definition key_mapping_items :: "(int \<times> int) list" where
  "key_mapping_items =
     [(Key_W, 16), (Key_A, 64), (Key_S, 32), (Key_D, 128),
      (Key_O, 2), (Key_P, 1), (Key_Return, 8), (Key_Space, 4)]"

definition key_mapping :: "int \<rightharpoonup> int" where
  "key_mapping = map_of key_mapping_items"

text \<open>
  \<open>update_action\<close> (gui.py 1069-1078). \<open>pressed_keys\<close> is a Python set; the loop visits
  its elements in some order, which the list fixes. The body is
  \<open>if key in self.key_mapping: action |= self.key_mapping[key]\<close>, started from
  \<open>action = 0\<close>.
\<close>

definition update_action_body :: "int \<Rightarrow> int \<Rightarrow> int" where
  "update_action_body key action =
     (case key_mapping key of None \<Rightarrow> action | Some v \<Rightarrow> action OR v)"

definition action_of_keys :: "int list \<Rightarrow> int" where
  "action_of_keys keys = fold update_action_body keys 0"

section \<open>The emulator core, an external collaborator\<close>

text \<open>
  \<open>NESEnv\<close> is imported from \<open>..nes_env\<close> and wraps the C++ core. The GUI reads its
  \<open>screen\<close>, \<open>ram\<close>, \<open>controllers\<close> and \<open>done\<close> attributes. Arrays are modelled by the
  list of their integer values. \<open>registers\<close> stands for the state of the C++ core that
  has no Python attribute (CPU, PPU, APU and mapper registers).
\<close>

record nes_core =
  screen :: "int list"
  ram :: "int list"
  controllers :: "int list \<times> int list"
  registers :: "int list"

text \<open>
  \<open>env_done\<close> is the attribute \<open>env.done\<close>, which gui.py 1566-1592 calls Python-level
  state, apart from the C++ state. \<open>backup_core\<close> is the one backup buffer of the core.
  \<open>audio_buffer\<close> holds the samples produced since the last pull.

  Modelled from the spec: \<open>NESEnv.get_and_clear_audio_buffer\<close> is not among the sources.
  The spec's contract (section 3, AudioChunk) is pull-and-clear: a pull returns the
  samples generated since the previous pull and empties the buffer.
\<close>

record nes_env =
  core :: nes_core
  backup_core :: nes_core
  env_done :: bool
  audio_buffer :: "real list"

text \<open>
  Modelled from the spec: \<open>NESEnv._backup\<close> and \<open>NESEnv._restore\<close> live in
  NESendo/nes_env.py and the C++ library, which are not among the sources. The spec's
  contract (sections 4.3 and 6): the native backup primitive freezes the full internal
  state of the core, keyed to the handle; the native restore primitive reinstates it,
  full-fidelity and exact. Neither takes an argument.
\<close>

definition nes_backup :: "nes_env \<Rightarrow> nes_env" where
  "nes_backup e = e\<lparr>backup_core := core e\<rparr>"

definition nes_restore :: "nes_env \<Rightarrow> nes_env" where
  "nes_restore e = e\<lparr>core := backup_core e\<rparr>"

text \<open>Python exceptions, as values.\<close>

datatype py_error =
    RuntimeError string
  | AttributeError string
  | OSError string
  | UnpicklingError string
  | TypeError string
  | ZeroDivisionError string
  | CoreError string

text \<open>
  What \<open>open(filename, 'wb')\<close> followed by \<open>pickle.dump\<close> can do: succeed, raise in
  \<open>open\<close> (the file is not touched), or raise in \<open>pickle.dump\<close> after \<open>open\<close> has
  truncated the file.
\<close>

datatype write_outcome = WriteOk | OpenFails | DumpFails

text \<open>
  The rest of the environment, taken as a parameter: the constructor, \<open>reset\<close> and
  \<open>step\<close> of \<open>NESEnv\<close> (\<open>step\<close> returns the new handle state and
  \<open>terminated or truncated\<close>), \<open>os.path\<close>, \<open>str\<close> on integers, the outcome of a file
  write, the cost in seconds of one emulated frame, and how many iterations of the
  emulation loop fit into a wait of a given number of milliseconds.
\<close>

record platform =
  NESEnv :: "string \<Rightarrow> py_error + nes_env"
  env_reset :: "nes_env \<Rightarrow> nes_env"
  env_step :: "int \<Rightarrow> nes_env \<Rightarrow> py_error + (nes_env \<times> bool)"
  path_basename :: "string \<Rightarrow> string"
  path_splitext_root :: "string \<Rightarrow> string"
  path_join :: "string \<Rightarrow> string \<Rightarrow> string"
  str_of_int :: "int \<Rightarrow> string"
  write_outcome_of :: "string \<Rightarrow> write_outcome"
  frame_cost :: real
  iterations_within :: "nat \<Rightarrow> nat"

section \<open>EmulationScheduler: class \<open>EmulationThread\<close>\<close>

datatype signal =
    frame_ready "int list"
  | audio_ready "real list"
  | emulation_error py_error
  | fps_updated real

text \<open>
  Where the thread stands: \<open>start()\<close> not called yet; \<open>start()\<close> called and \<open>run()\<close> not
  yet at its \<open>while\<close> loop; in the loop; \<open>run()\<close> returned. \<open>QThread.isRunning()\<close> is true
  in the two middle phases.
\<close>

datatype phase = NotStarted | Starting | Looping | Finished

record emulation_thread =
  t_rom_path :: string
  env :: "nes_env option"
  running :: bool
  paused :: bool
  fastforward :: bool
  fastforward_speed :: real
  t_current_action :: int
  target_fps :: int
  frame_duration :: real
  frame_count :: int
  fps_start_time :: real
  current_fps :: real
  last_frame_time :: real
  clock :: real
  thread_phase :: phase
  emitted :: "signal list"

text \<open>\<open>EmulationThread.__init__\<close> (gui.py 35-50); \<open>now\<close> is the reading of \<open>time.time()\<close>.\<close>

definition EmulationThread :: "real \<Rightarrow> string \<Rightarrow> emulation_thread" where
  "EmulationThread now rom =
     \<lparr>t_rom_path = rom, env = None, running = False, paused = False, fastforward = False,
      fastforward_speed = 2, t_current_action = 0, target_fps = 60, frame_duration = 1 / 60,
      frame_count = 0, fps_start_time = now, current_fps = 0, last_frame_time = now,
      clock = now, thread_phase = NotStarted, emitted = []\<rparr>"

definition isRunning :: "emulation_thread \<Rightarrow> bool" where
  "isRunning t = (thread_phase t = Starting \<or> thread_phase t = Looping)"

text \<open>\<open>QThread.start()\<close>: nothing happens if the thread is already running.\<close>

definition thread_start :: "emulation_thread \<Rightarrow> emulation_thread" where
  "thread_start t = (if isRunning t then t else t\<lparr>thread_phase := Starting\<rparr>)"

definition set_action :: "int \<Rightarrow> emulation_thread \<Rightarrow> emulation_thread" where
  "set_action action t = t\<lparr>t_current_action := action\<rparr>"

text \<open>\<open>set_fps\<close> (gui.py 121-124); \<open>1.0 / fps\<close> raises when \<open>fps\<close> is 0.\<close>

definition set_fps :: "int \<Rightarrow> emulation_thread \<Rightarrow> py_error + emulation_thread" where
  "set_fps fps t =
     (if fps = 0 then Inl (ZeroDivisionError ''float division by zero'')
      else Inr (t\<lparr>target_fps := fps, frame_duration := 1 / real_of_int fps\<rparr>))"

definition reset_fps_calculation :: "real \<Rightarrow> emulation_thread \<Rightarrow> emulation_thread" where
  "reset_fps_calculation now t = t\<lparr>frame_count := 0, fps_start_time := now, current_fps := 0\<rparr>"

definition pause :: "emulation_thread \<Rightarrow> emulation_thread" where
  "pause t = t\<lparr>paused := True\<rparr>"

definition resume :: "emulation_thread \<Rightarrow> emulation_thread" where
  "resume t = t\<lparr>paused := False\<rparr>"

definition toggle_fastforward :: "emulation_thread \<Rightarrow> emulation_thread" where
  "toggle_fastforward t = t\<lparr>fastforward := \<not> fastforward t\<rparr>"

text \<open>
  \<open>set_fastforward_speed\<close> (gui.py 148-150): \<open>max(1.0, speed)\<close>. Floats are modelled by
  reals; \<open>max\<close> and the comparison it makes do not round.
\<close>

definition set_fastforward_speed :: "real \<Rightarrow> emulation_thread \<Rightarrow> emulation_thread" where
  "set_fastforward_speed speed t = t\<lparr>fastforward_speed := max 1 speed\<rparr>"

text \<open>
  The frame interval of one loop iteration (gui.py 72-75). The division raises when
  \<open>fastforward_speed\<close> is 0, which no thread reaches: the field is written by the
  constructor (2.0) and by \<open>set_fastforward_speed\<close> (at least 1.0) only.
\<close>

definition current_frame_duration :: "emulation_thread \<Rightarrow> real" where
  "current_frame_duration t =
     (if fastforward t then frame_duration t / fastforward_speed t else frame_duration t)"

text \<open>
  The \<open>finally\<close> clause of \<open>run\<close> (gui.py 112-115), after which the thread has finished.
\<close>

definition run_finally :: "emulation_thread \<Rightarrow> emulation_thread" where
  "run_finally t = t\<lparr>env := None, thread_phase := Finished\<rparr>"

definition run_except :: "py_error \<Rightarrow> emulation_thread \<Rightarrow> emulation_thread" where
  "run_except e t = run_finally (t\<lparr>emitted := emitted t @ [emulation_error e]\<rparr>)"

definition sleep_1ms :: "emulation_thread \<Rightarrow> emulation_thread" where
  "sleep_1ms t = t\<lparr>clock := clock t + 0.001\<rparr>"

text \<open>The statements of \<open>run\<close> before the loop (gui.py 55-62).\<close>

definition run_prologue :: "platform \<Rightarrow> emulation_thread \<Rightarrow> emulation_thread" where
  "run_prologue pf t =
     (case NESEnv pf (t_rom_path t) of
        Inl e \<Rightarrow> run_except e t
      | Inr e0 \<Rightarrow>
          t\<lparr>env := Some (env_reset pf e0), running := True, paused := False,
            fastforward := False, last_frame_time := clock t, thread_phase := Looping\<rparr>)"

text \<open>
  The emulation step of one accepted tick (gui.py 80-104), for a handle \<open>e\<close> that is
  present and not done; \<open>current_time\<close> was read at the top of the iteration.
\<close>

definition run_tick :: "platform \<Rightarrow> real \<Rightarrow> nes_env \<Rightarrow> emulation_thread \<Rightarrow> emulation_thread" where
  "run_tick pf current_time e t =
     (case env_step pf (t_current_action t) e of
        Inl err \<Rightarrow> run_except err t
      | Inr (e1, over) \<Rightarrow>
          (let e2 = (if over then env_reset pf e1 else e1);
               audio_data = audio_buffer e2;
               e3 = e2\<lparr>audio_buffer := []\<rparr>;
               sig1 = [frame_ready (screen (core e2))];
               sig2 = (if length audio_data > 0 then [audio_ready audio_data] else []);
               n = frame_count t + 1;
               elapsed_time = current_time - fps_start_time t;
               upd = (n mod 30 = 0 \<and> elapsed_time > 0);
               fps = (if upd then real_of_int n / elapsed_time else current_fps t);
               sig3 = (if upd then [fps_updated fps] else [])
           in t\<lparr>env := Some e3, frame_count := n, current_fps := fps,
                last_frame_time := current_time, clock := clock t + frame_cost pf,
                emitted := emitted t @ sig1 @ sig2 @ sig3\<rparr>))"

text \<open>One iteration of \<open>while self.running\<close> (gui.py 64-108), the loop test included.\<close>

definition run_iteration :: "platform \<Rightarrow> emulation_thread \<Rightarrow> emulation_thread" where
  "run_iteration pf t =
     (if \<not> running t then run_finally t
      else let current_time = clock t in
        if paused t then sleep_1ms t
        else if current_time - last_frame_time t \<ge> current_frame_duration t then
          (case env t of
             Some e \<Rightarrow> if \<not> env_done e then run_tick pf current_time e t else sleep_1ms t
           | None \<Rightarrow> sleep_1ms t)
        else sleep_1ms t)"

text \<open>What the thread does next, by its phase.\<close>

definition thread_advance :: "platform \<Rightarrow> emulation_thread \<Rightarrow> emulation_thread" where
  "thread_advance pf t =
     (case thread_phase t of
        NotStarted \<Rightarrow> t
      | Starting \<Rightarrow> run_prologue pf t
      | Looping \<Rightarrow> run_iteration pf t
      | Finished \<Rightarrow> t)"

text \<open>
  \<open>QThread.wait()\<close> without an argument blocks the caller until the thread has finished
  and returns at once when the thread is not running; while the caller is blocked only
  the thread advances. \<open>None\<close> is a call that never returns.
\<close>

partial_function (option) wait_unbounded :: "platform \<Rightarrow> emulation_thread \<Rightarrow> emulation_thread option" where
  "wait_unbounded pf t =
     (if \<not> isRunning t then Some t else wait_unbounded pf (thread_advance pf t))"

text \<open>
  \<open>QThread.wait(ms)\<close> gives up after the timeout: the thread advances by at most the \<open>n\<close>
  iterations that fit into it.
\<close>

fun wait_at_most :: "platform \<Rightarrow> nat \<Rightarrow> emulation_thread \<Rightarrow> emulation_thread" where
  "wait_at_most pf 0 t = t"
| "wait_at_most pf (Suc n) t =
     (if \<not> isRunning t then t else wait_at_most pf n (thread_advance pf t))"

definition wait_ms :: "platform \<Rightarrow> nat \<Rightarrow> emulation_thread \<Rightarrow> emulation_thread" where
  "wait_ms pf ms t = wait_at_most pf (iterations_within pf ms) t"

text \<open>\<open>EmulationThread.stop\<close> (gui.py 156-159): \<open>self.running = False; self.wait()\<close>.\<close>

definition stop :: "platform \<Rightarrow> emulation_thread \<Rightarrow> emulation_thread option" where
  "stop pf t = wait_unbounded pf (t\<lparr>running := False\<rparr>)"

section \<open>The main window: class \<open>NESendoGUI\<close>\<close>

text \<open>
  What the window shows the user: message boxes (title and text; for a critical box the
  text is a prefix followed by \<open>str(e)\<close>; for a question the buttons are Yes and No and
  the box records its default button), status bar messages and lines printed.
\<close>

datatype msg_button = Yes | No

datatype ui_event =
    MsgWarning string string
  | MsgCritical string string py_error
  | MsgQuestion string msg_button
  | StatusMessage string
  | Printed string

text \<open>
  The dictionary \<open>capture_emulator_state\<close> and \<open>load_state_from_file\<close> build. A key whose
  value is \<open>None\<close>, or that is absent, is \<open>None\<close> here (the second builds no \<open>'screen'\<close>).
\<close>

record state_data =
  sd_rom_path :: "string option"
  sd_screen :: "int list option"
  sd_ram :: "int list option"
  sd_controllers :: "(int list \<times> int list) option"
  sd_done :: "bool option"
  sd_timestamp :: real

text \<open>The dictionary \<open>save_state_to_file\<close> pickles (gui.py 1600-1607).\<close>

record serializable_state =
  ss_rom_path :: "string option"
  ss_ram :: "int list option"
  ss_controllers :: "(int list \<times> int list) option"
  ss_done :: "bool option"
  ss_timestamp :: real
  ss_version :: string

text \<open>
  A file holds a pickled dictionary of that shape, or bytes \<open>pickle.load\<close> cannot read.
\<close>

datatype file_content = Pickled serializable_state | Unreadable

record gui =
  rom_path :: "string option"
  emulation_thread :: "emulation_thread option"
  current_action :: int
  pressed_keys :: "int list"
  audio_enabled :: bool
  audio_output :: bool
  audio_device :: "bool option"
  device_opens :: bool
  device_written :: "int list"
  state_slots :: "int \<rightharpoonup> state_data"
  state_directory :: string
  files :: "string \<rightharpoonup> file_content"
  now :: real
  events :: "ui_event list"

definition notify :: "ui_event \<Rightarrow> gui \<Rightarrow> gui" where
  "notify ev g = g\<lparr>events := events g @ [ev]\<rparr>"

text \<open>\<open>update_action\<close> (gui.py 1069-1078), on the window.\<close>

definition update_action :: "gui \<Rightarrow> gui" where
  "update_action g =
     (let action = action_of_keys (pressed_keys g)
      in g\<lparr>current_action := action,
           emulation_thread := map_option (set_action action) (emulation_thread g)\<rparr>)"

definition is_emulation_running :: "gui \<Rightarrow> bool" where
  "is_emulation_running g =
     (case emulation_thread g of None \<Rightarrow> False | Some t \<Rightarrow> isRunning t)"

text \<open>Python's truth value of \<open>self.rom_path\<close>: neither \<open>None\<close> nor the empty string.\<close>

definition rom_loaded :: "gui \<Rightarrow> bool" where
  "rom_loaded g = (case rom_path g of None \<Rightarrow> False | Some p \<Rightarrow> p \<noteq> [])"

text \<open>
  \<open>stop_emulation\<close> (gui.py 1176-1206). The menu actions and the logo are not modelled.
  \<open>None\<close>: the call does not return.
\<close>

definition stop_emulation :: "platform \<Rightarrow> gui \<Rightarrow> gui option" where
  "stop_emulation pf g =
     (case emulation_thread g of
        None \<Rightarrow> Some g
      | Some t \<Rightarrow>
          (case stop pf t of
             None \<Rightarrow> None
           | Some t1 \<Rightarrow>
               (let t2 = (if isRunning t1 then wait_ms pf 2000 t1 else t1)
                in Some (notify (StatusMessage ''Emulation stopped'')
                     (g\<lparr>emulation_thread := None, audio_device := None\<rparr>)))))"

text \<open>\<open>start_emulation\<close> (gui.py 1127-1174).\<close>

definition start_emulation :: "platform \<Rightarrow> gui \<Rightarrow> gui option" where
  "start_emulation pf g =
     (case rom_path g of
        None \<Rightarrow> Some (notify (MsgWarning ''No ROM'' ''Please load a ROM file first.'') g)
      | Some rom \<Rightarrow>
          if rom = [] then
            Some (notify (MsgWarning ''No ROM'' ''Please load a ROM file first.'') g)
          else
            (case (if is_emulation_running g
                   then (case stop_emulation pf
                                (notify (StatusMessage ''Stopping current emulation...'') g) of
                           None \<Rightarrow> None
                         | Some g1 \<Rightarrow>
                             Some (g1\<lparr>emulation_thread :=
                                     map_option (wait_ms pf 1000) (emulation_thread g1)\<rparr>))
                   else Some g) of
               None \<Rightarrow> None
             | Some g2 \<Rightarrow>
                 (let t = thread_start (EmulationThread (now g2) rom);
                      g3 = notify (StatusMessage ''Emulation started'')
                             (g2\<lparr>emulation_thread := Some t\<rparr>)
                  in Some (g3\<lparr>emulation_thread :=
                               map_option (reset_fps_calculation (now g3))
                                 (emulation_thread g3)\<rparr>))))"

section \<open>AudioStreamPipeline: \<open>NESendoGUI.play_audio\<close>\<close>

text \<open>
  The chunk is a numpy array of dtype \<open>float32\<close> (from the thread) or \<open>int16\<close>. Floats are
  modelled by reals, so the rounding of the float arithmetic is not.
\<close>

datatype audio_array = Float32 "real list" | Int16 "int list"

text \<open>\<open>np.clip(a, lo, hi)\<close>, element by element.\<close>

definition np_clip :: "real list \<Rightarrow> real \<Rightarrow> real \<Rightarrow> real list" where
  "np_clip a lo hi = map (\<lambda>x. min hi (max lo x)) a"

text \<open>
  The two loops (gui.py 966-971), each assigning into the array it reads. Every index
  they use is in range: \<open>1 \<le> i < len\<close> in the first, \<open>2 \<le> i < len\<close> in the second.
\<close>

definition first_pass :: "real list \<Rightarrow> real list" where
  "first_pass audio_data =
     fold (\<lambda>i a. a[i := 0.6 * a ! i + 0.4 * a ! (i - 1)]) [1..<length audio_data] audio_data"

definition second_pass :: "real list \<Rightarrow> real list" where
  "second_pass audio_data =
     fold (\<lambda>i a. a[i := 0.7 * a ! i + 0.3 * a ! (i - 2)]) [2..<length audio_data] audio_data"

text \<open>
  \<open>astype(np.int16)\<close> on a float: the fraction is dropped (rounding towards zero) and
  the integer is kept in 16 bits, two's complement.
\<close>

definition truncate :: "real \<Rightarrow> int" where
  "truncate x = (if x \<ge> 0 then \<lfloor>x\<rfloor> else - \<lfloor>- x\<rfloor>)"

definition astype_int16 :: "real \<Rightarrow> int" where
  "astype_int16 x = (truncate x + 32768) mod 65536 - 32768"

text \<open>The conversion of a chunk to 16-bit samples (gui.py 959-974).\<close>

definition to_int16_samples :: "audio_array \<Rightarrow> int list" where
  "to_int16_samples audio_data =
     (case audio_data of
        Int16 samples \<Rightarrow> samples
      | Float32 xs \<Rightarrow>
          (let a = np_clip xs (-1) 1;
               b = (if length a > 2 then second_pass (first_pass a) else a)
           in map (\<lambda>x. astype_int16 (x * 24576)) b))"

text \<open>
  The pipeline in the words of the spec (section 4.2 and claim C9), for comparison: clip,
  then pass 1 replaces \<open>sample[i]\<close> by \<open>0.6 * sample[i] + 0.4 * sample[i-1]\<close> for every
  \<open>i \<ge> 1\<close>, then pass 2 replaces \<open>sample[i]\<close> by \<open>0.7 * sample[i] + 0.3 * sample[i-2]\<close>
  for every \<open>i \<ge> 2\<close>, then the scaling. Each pass runs from left to right over the
  chunk, so the earlier sample it reads is the one it has already replaced:
  \<open>spec_pass1_from prev\<close> has the replaced sample before the rest in \<open>prev\<close>,
  \<open>spec_pass2_from prev2 prev1\<close> has the two before it.
\<close>

fun spec_pass1_from :: "real \<Rightarrow> real list \<Rightarrow> real list" where
  "spec_pass1_from prev [] = []"
| "spec_pass1_from prev (x # xs) =
     (0.6 * x + 0.4 * prev) # spec_pass1_from (0.6 * x + 0.4 * prev) xs"

fun spec_pass1 :: "real list \<Rightarrow> real list" where
  "spec_pass1 [] = []"
| "spec_pass1 (x # xs) = x # spec_pass1_from x xs"

fun spec_pass2_from :: "real \<Rightarrow> real \<Rightarrow> real list \<Rightarrow> real list" where
  "spec_pass2_from prev2 prev1 [] = []"
| "spec_pass2_from prev2 prev1 (x # xs) =
     (0.7 * x + 0.3 * prev2) # spec_pass2_from prev1 (0.7 * x + 0.3 * prev2) xs"

fun spec_pass2 :: "real list \<Rightarrow> real list" where
  "spec_pass2 (a # b # xs) = a # b # spec_pass2_from a b xs"
| "spec_pass2 xs = xs"

definition spec_pipeline :: "real list \<Rightarrow> int list" where
  "spec_pipeline xs =
     map (\<lambda>x. astype_int16 (x * 24576)) (spec_pass2 (spec_pass1 (np_clip xs (-1) 1)))"

text \<open>
  \<open>play_audio\<close> (gui.py 952-993). \<open>audio_device\<close> is \<open>None\<close> or a device that is open or
  not; \<open>audio_output.start()\<close> returns a device, open when \<open>device_opens\<close>. The bytes are
  written in segments of 512; what reaches the device is their concatenation, the
  samples in order.
\<close>

definition play_audio :: "audio_array \<Rightarrow> gui \<Rightarrow> gui" where
  "play_audio audio_data g =
     (if \<not> audio_enabled g \<or> \<not> audio_output g then g
      else
        (let samples = to_int16_samples audio_data;
             device = (case audio_device g of None \<Rightarrow> Some (device_opens g) | Some d \<Rightarrow> Some d);
             g1 = g\<lparr>audio_device := device\<rparr>
         in if device = Some True then g1\<lparr>device_written := device_written g1 @ samples\<rparr>
            else g1))"

section \<open>StateSnapshotStore\<close>

text \<open>\<open>get_state_filename\<close> (gui.py 1475-1484).\<close>

definition get_state_filename :: "platform \<Rightarrow> gui \<Rightarrow> int option \<Rightarrow> string option \<Rightarrow> string option" where
  "get_state_filename pf g slot custom_path =
     (case (if custom_path = Some [] then None else custom_path) of
        Some p \<Rightarrow> Some p
      | None \<Rightarrow>
          (case slot of
             None \<Rightarrow> None
           | Some n \<Rightarrow>
               (let rom_name = (case rom_path g of
                                  None \<Rightarrow> ''unknown''
                                | Some p \<Rightarrow> if p = [] then ''unknown''
                                            else path_splitext_root pf (path_basename pf p))
                in Some (path_join pf (state_directory g)
                           (rom_name @ ''_slot_'' @ str_of_int pf n @ ''.state'')))))"

text \<open>\<open>capture_emulator_state\<close> (gui.py 1540-1557).\<close>

definition capture_emulator_state :: "gui \<Rightarrow> py_error + state_data" where
  "capture_emulator_state g =
     (case emulation_thread g of
        None \<Rightarrow> Inl (RuntimeError ''No emulation running'')
      | Some t \<Rightarrow>
          (case env t of
             None \<Rightarrow> Inl (RuntimeError ''No emulation running'')
           | Some e \<Rightarrow>
               Inr \<lparr>sd_rom_path = rom_path g,
                    sd_screen = Some (screen (core e)),
                    sd_ram = Some (ram (core e)),
                    sd_controllers = Some (controllers (core e)),
                    sd_done = Some (env_done e),
                    sd_timestamp = now g\<rparr>))"

text \<open>
  \<open>restore_emulator_state_from_data\<close> (gui.py 1575-1595): the only assignment is
  \<open>env.done = state_data['done']\<close>, made when that value is not \<open>None\<close>.
\<close>

definition restore_emulator_state_from_data :: "state_data \<Rightarrow> gui \<Rightarrow> py_error + gui" where
  "restore_emulator_state_from_data sd g =
     (case emulation_thread g of
        None \<Rightarrow> Inl (RuntimeError ''No emulation running'')
      | Some t \<Rightarrow>
          (case env t of
             None \<Rightarrow> Inl (RuntimeError ''No emulation running'')
           | Some e \<Rightarrow>
               (let e1 = (case sd_done sd of None \<Rightarrow> e | Some d \<Rightarrow> e\<lparr>env_done := d\<rparr>);
                    g1 = g\<lparr>emulation_thread := Some (t\<lparr>env := Some e1\<rparr>)\<rparr>
                in Inr (notify (Printed ''For full state restoration, use in-memory savestates (save and load in same session).'')
                      (notify (Printed ''Warning: File-based savestate loading only restores basic state.'') g1)))))"

text \<open>
  \<open>save_state_to_file\<close> (gui.py 1597-1610): the files afterwards, and the exception
  raised if any. \<open>tolist()\<close> keeps the values.
\<close>

definition save_state_to_file ::
  "platform \<Rightarrow> state_data \<Rightarrow> string \<Rightarrow> (string \<rightharpoonup> file_content) \<Rightarrow> py_error option \<times> (string \<rightharpoonup> file_content)" where
  "save_state_to_file pf sd filename fs =
     (let serializable =
            \<lparr>ss_rom_path = sd_rom_path sd, ss_ram = sd_ram sd,
             ss_controllers = sd_controllers sd, ss_done = sd_done sd,
             ss_timestamp = sd_timestamp sd, ss_version = ''1.0''\<rparr>
      in case write_outcome_of pf filename of
           OpenFails \<Rightarrow> (Some (OSError filename), fs)
         | DumpFails \<Rightarrow> (Some (OSError filename), fs(filename \<mapsto> Unreadable))
         | WriteOk \<Rightarrow> (None, fs(filename \<mapsto> Pickled serializable)))"

text \<open>
  \<open>load_state_from_file\<close> (gui.py 1612-1650); \<open>np.array\<close> on a list of integers keeps the
  values. The line printed before the exception is raised again is not modelled.
\<close>

definition load_state_from_file :: "(string \<rightharpoonup> file_content) \<Rightarrow> string \<Rightarrow> py_error + state_data" where
  "load_state_from_file fs filename =
     (case fs filename of
        None \<Rightarrow> Inl (OSError filename)
      | Some Unreadable \<Rightarrow> Inl (UnpicklingError filename)
      | Some (Pickled serializable) \<Rightarrow>
          Inr \<lparr>sd_rom_path = ss_rom_path serializable,
               sd_screen = None,
               sd_ram = ss_ram serializable,
               sd_controllers = ss_controllers serializable,
               sd_done = ss_done serializable,
               sd_timestamp = ss_timestamp serializable\<rparr>)"

text \<open>
  The body of the \<open>try\<close> of \<open>save_state\<close> (gui.py 1492-1508): the window as the body left
  it, and the exception that ended it if any. An assignment made before the exception
  stays made.
\<close>

definition save_state_try :: "platform \<Rightarrow> int \<Rightarrow> emulation_thread \<Rightarrow> gui \<Rightarrow> py_error option \<times> gui" where
  "save_state_try pf slot t g =
     (case env t of
        None \<Rightarrow> (Some (AttributeError ''_backup''), g)
      | Some e \<Rightarrow>
          (let g1 = g\<lparr>emulation_thread := Some (t\<lparr>env := Some (nes_backup e)\<rparr>)\<rparr> in
           case capture_emulator_state g1 of
             Inl err \<Rightarrow> (Some err, g1)
           | Inr sd \<Rightarrow>
               (let g2 = g1\<lparr>state_slots := (state_slots g1)(slot \<mapsto> sd)\<rparr> in
                case get_state_filename pf g2 (Some slot) None of
                  None \<Rightarrow> (Some (TypeError ''open''), g2)
                | Some filename \<Rightarrow>
                    (case save_state_to_file pf sd filename (files g2) of
                       (Some err, fs) \<Rightarrow> (Some err, g2\<lparr>files := fs\<rparr>)
                     | (None, fs) \<Rightarrow>
                         (None, notify (StatusMessage (''State saved to slot '' @ str_of_int pf slot))
                                  (g2\<lparr>files := fs\<rparr>))))))"

text \<open>\<open>save_state\<close> (gui.py 1486-1511).\<close>

definition save_state :: "platform \<Rightarrow> int \<Rightarrow> gui \<Rightarrow> gui" where
  "save_state pf slot g =
     (case emulation_thread g of
        None \<Rightarrow> notify (MsgWarning ''No Emulation'' ''No emulation is currently running.'') g
      | Some t \<Rightarrow>
          if \<not> isRunning t then
            notify (MsgWarning ''No Emulation'' ''No emulation is currently running.'') g
          else
            (case save_state_try pf slot t g of
               (Some err, g1) \<Rightarrow> notify (MsgCritical ''Save Error'' ''Failed to save state: '' err) g1
             | (None, g1) \<Rightarrow> g1))"

text \<open>The native restore on the handle of the window, if there is one (gui.py 1523-1524).\<close>

definition restore_backup :: "gui \<Rightarrow> gui" where
  "restore_backup g =
     (case emulation_thread g of
        None \<Rightarrow> g
      | Some t \<Rightarrow>
          (case env t of
             None \<Rightarrow> g
           | Some e \<Rightarrow> g\<lparr>emulation_thread := Some (t\<lparr>env := Some (nes_restore e)\<rparr>)\<rparr>))"

text \<open>\<open>load_state\<close> (gui.py 1513-1537).\<close>

definition load_state :: "platform \<Rightarrow> int \<Rightarrow> gui \<Rightarrow> gui" where
  "load_state pf slot g =
     (if \<not> is_emulation_running g then
        notify (MsgWarning ''No Emulation'' ''No emulation is currently running.'') g
      else if slot \<in> dom (state_slots g) then
        notify (StatusMessage (''State loaded from slot '' @ str_of_int pf slot)) (restore_backup g)
      else
        notify (MsgWarning ''Limited Functionality''
                  ''File-based savestate loading is limited. For full functionality, save and load states within the same session using slots 1-4.'') g)"

text \<open>
  \<open>QMessageBox.question\<close> with the buttons Yes and No: the user clicks one, or closes
  the box with the keyboard, which gives the default button.
\<close>

definition question :: "msg_button \<Rightarrow> msg_button option \<Rightarrow> msg_button" where
  "question default_button user = (case user of None \<Rightarrow> default_button | Some b \<Rightarrow> b)"

text \<open>
  The statements of \<open>load_state_from_file_dialog\<close> after the ROM check (gui.py
  1761-1771): the record goes into slot 0, the native restore is invoked, the status bar
  says so.
\<close>

definition load_state_from_file_dialog_apply :: "platform \<Rightarrow> string \<Rightarrow> state_data \<Rightarrow> gui \<Rightarrow> gui" where
  "load_state_from_file_dialog_apply pf file_path sd g =
     notify (StatusMessage (''State loaded from '' @ path_basename pf file_path))
       (restore_backup (g\<lparr>state_slots := (state_slots g)(0 \<mapsto> sd)\<rparr>))"

text \<open>
  \<open>load_state_from_file_dialog\<close> (gui.py 1727-1774). \<open>file_path\<close> is what the file dialog
  returned (empty when cancelled), \<open>user\<close> what the user does with the question box.
  When the ROM paths differ, the text of the question is built first (gui.py 1751-1754):
  \<open>os.path.basename(state_data.get('rom_path', 'Unknown'))\<close> raises \<open>TypeError\<close> when the
  recorded path is \<open>None\<close> (the key is there, so the default is not used), and the
  \<open>except\<close> clause shows "Load Error"; no question is asked then.
\<close>

definition load_state_from_file_dialog :: "platform \<Rightarrow> string \<Rightarrow> msg_button option \<Rightarrow> gui \<Rightarrow> gui" where
  "load_state_from_file_dialog pf file_path user g =
     (if \<not> is_emulation_running g then
        notify (MsgWarning ''No Emulation'' ''No emulation is currently running.'') g
      else if file_path = [] then g
      else
        (case load_state_from_file (files g) file_path of
           Inl err \<Rightarrow> notify (MsgCritical ''Load Error'' ''Failed to load state from file: '' err) g
         | Inr sd \<Rightarrow>
             if sd_rom_path sd \<noteq> rom_path g then
               (case sd_rom_path sd of
                  None \<Rightarrow>
                    notify (MsgCritical ''Load Error'' ''Failed to load state from file: ''
                              (TypeError ''basename'')) g
                | Some recorded \<Rightarrow>
                    (let g1 = notify (MsgQuestion ''ROM Mismatch'' No) g
                     in if question No user \<noteq> Yes then g1
                        else load_state_from_file_dialog_apply pf file_path sd g1))
             else load_state_from_file_dialog_apply pf file_path sd g))"

text \<open>\<open>save_state_to_file_dialog\<close> (gui.py 1685-1725), which writes the file first.\<close>

definition save_state_to_file_dialog :: "platform \<Rightarrow> string \<Rightarrow> gui \<Rightarrow> gui" where
  "save_state_to_file_dialog pf file_path g =
     (case emulation_thread g of
        None \<Rightarrow> notify (MsgWarning ''No Emulation'' ''No emulation is currently running.'') g
      | Some t \<Rightarrow>
          if \<not> isRunning t then
            notify (MsgWarning ''No Emulation'' ''No emulation is currently running.'') g
          else if file_path = [] then g
          else
            (case env t of
               None \<Rightarrow> notify (MsgCritical ''Save Error'' ''Failed to save state to file: ''
                                 (AttributeError ''_backup'')) g
             | Some e \<Rightarrow>
                 (let g1 = g\<lparr>emulation_thread := Some (t\<lparr>env := Some (nes_backup e)\<rparr>)\<rparr> in
                  case capture_emulator_state g1 of
                    Inl err \<Rightarrow> notify (MsgCritical ''Save Error'' ''Failed to save state to file: '' err) g1
                  | Inr sd \<Rightarrow>
                      (case save_state_to_file pf sd file_path (files g1) of
                         (Some err, fs) \<Rightarrow>
                           notify (MsgCritical ''Save Error'' ''Failed to save state to file: '' err)
                             (g1\<lparr>files := fs\<rparr>)
                       | (None, fs) \<Rightarrow>
                           notify (StatusMessage (''State saved to '' @ path_basename pf file_path))
                             (g1\<lparr>files := fs, state_slots := (state_slots g1)(0 \<mapsto> sd)\<rparr>)))))"

text \<open>\<open>clear_states\<close> (gui.py 1660-1663).\<close>

definition clear_states :: "gui \<Rightarrow> gui" where
  "clear_states g = g\<lparr>state_slots := Map.empty\<rparr>"

text \<open>
  \<open>save_state_to_file\<close>, then \<open>load_state_from_file\<close> on the file written, then
  \<open>restore_emulator_state_from_data\<close> on the live session.
\<close>

definition save_load_apply :: "platform \<Rightarrow> state_data \<Rightarrow> string \<Rightarrow> gui \<Rightarrow> py_error + gui" where
  "save_load_apply pf sd filename g =
     (case save_state_to_file pf sd filename (files g) of
        (Some err, fs) \<Rightarrow> Inl err
      | (None, fs) \<Rightarrow>
          (case load_state_from_file fs filename of
             Inl err \<Rightarrow> Inl err
           | Inr loaded \<Rightarrow> restore_emulator_state_from_data loaded (g\<lparr>files := fs\<rparr>)))"

text \<open>The handle of the window's thread, and what the session shows of it.\<close>

definition live_env :: "gui \<Rightarrow> nes_env option" where
  "live_env g = (case emulation_thread g of None \<Rightarrow> None | Some t \<Rightarrow> env t)"

definition live_ram :: "gui \<Rightarrow> int list option" where
  "live_ram g = map_option (\<lambda>e. ram (core e)) (live_env g)"

text \<open>
  Between two calls made from the window, the loop thread steps the core: the live state
  of the core becomes some \<open>c\<close>. A step does not write the backup buffer.
\<close>

definition core_advanced_to :: "nes_core \<Rightarrow> gui \<Rightarrow> gui" where
  "core_advanced_to c g =
     g\<lparr>emulation_thread :=
         map_option (\<lambda>t. t\<lparr>env := map_option (\<lambda>e. e\<lparr>core := c\<rparr>) (env t)\<rparr>) (emulation_thread g)\<rparr>"

section \<open>A concrete session\<close>

text \<open>
  A small core, a platform whose core never fails and whose files can be written, and a
  window with a ROM loaded and the emulation loop running. The theorems are evaluated on
  them.
\<close>

definition demo_core :: nes_core where
  "demo_core = \<lparr>screen = [0, 0, 0], ram = [1, 2], controllers = ([0], [0]), registers = [7]\<rparr>"

definition demo_env :: nes_env where
  "demo_env = \<lparr>core = demo_core, backup_core = demo_core\<lparr>ram := [9, 9]\<rparr>,
               env_done = False, audio_buffer = []\<rparr>"

definition demo_platform :: platform where
  "demo_platform =
     \<lparr>NESEnv = (\<lambda>rom. Inr demo_env),
      env_reset = (\<lambda>e. e),
      env_step = (\<lambda>action e. Inr (e, False)),
      path_basename = (\<lambda>p. rev (takeWhile (\<lambda>c. c \<noteq> CHR ''/'') (rev p))),
      path_splitext_root = (\<lambda>p. takeWhile (\<lambda>c. c \<noteq> CHR ''.'') p),
      path_join = (\<lambda>a b. a @ ''/'' @ b),
      str_of_int = (\<lambda>n. replicate (nat n) CHR ''I''),
      write_outcome_of = (\<lambda>f. WriteOk),
      frame_cost = 0.001,
      iterations_within = (\<lambda>ms. ms)\<rparr>"

definition demo_thread :: emulation_thread where
  "demo_thread =
     (EmulationThread 0 ''mario.nes'')
       \<lparr>env := Some demo_env, running := True, thread_phase := Looping, clock := 1\<rparr>"

definition demo_gui :: gui where
  "demo_gui =
     \<lparr>rom_path = Some ''mario.nes'', emulation_thread = Some demo_thread, current_action = 0,
      pressed_keys = [], audio_enabled = True, audio_output = True, audio_device = None,
      device_opens = True, device_written = [], state_slots = Map.empty,
      state_directory = ''states'', files = Map.empty, now = 1, events = []\<rparr>"

text \<open>A state file written while another ROM was loaded.\<close>

definition zelda_file :: serializable_state where
  "zelda_file =
     \<lparr>ss_rom_path = Some ''zelda.nes'', ss_ram = Some [5, 6],
      ss_controllers = Some ([1], [0]), ss_done = Some True, ss_timestamp = 0,
      ss_version = ''1.0''\<rparr>"

definition demo_gui_with_file :: gui where
  "demo_gui_with_file = demo_gui\<lparr>files := [''z.state'' \<mapsto> Pickled zelda_file]\<rparr>"

text \<open>A record captured earlier, with another RAM image and the terminal flag set.\<close>

definition earlier_snapshot :: state_data where
  "earlier_snapshot =
     \<lparr>sd_rom_path = Some ''mario.nes'', sd_screen = Some [3, 3, 3], sd_ram = Some [5, 6],
      sd_controllers = Some ([1], [0]), sd_done = Some True, sd_timestamp = 0\<rparr>"

text \<open>A record captured while another ROM was loaded.\<close>

definition zelda_snapshot :: state_data where
  "zelda_snapshot =
     \<lparr>sd_rom_path = Some ''zelda.nes'', sd_screen = Some [4, 4, 4], sd_ram = Some [5, 6],
      sd_controllers = Some ([1], [0]), sd_done = Some True, sd_timestamp = 0\<rparr>"

text \<open>A state file that records no ROM path.\<close>

definition anonymous_file :: serializable_state where
  "anonymous_file = zelda_file\<lparr>ss_rom_path := None\<rparr>"

definition demo_gui_with_anonymous_file :: gui where
  "demo_gui_with_anonymous_file = demo_gui\<lparr>files := [''a.state'' \<mapsto> Pickled anonymous_file]\<rparr>"

text \<open>The window with slot 1 saved earlier, and a platform on which \<open>open\<close> raises.\<close>

definition demo_gui_slot1 :: gui where
  "demo_gui_slot1 = demo_gui\<lparr>state_slots := [1 \<mapsto> earlier_snapshot]\<rparr>"

definition readonly_platform :: platform where
  "readonly_platform = demo_platform\<lparr>write_outcome_of := (\<lambda>f. OpenFails)\<rparr>"

text \<open>A thread on which \<open>start()\<close> has just been called.\<close>

definition started_thread :: emulation_thread where
  "started_thread = thread_start (EmulationThread 0 ''mario.nes'')"

section \<open>Facts about the concrete session\<close>

lemmas demo_defs = demo_core_def demo_env_def demo_platform_def demo_thread_def demo_gui_def
  EmulationThread_def


lemma demo_gui_thread:
  "emulation_thread demo_gui = Some demo_thread" "isRunning demo_thread"
  "env demo_thread = Some demo_env"
  by (simp_all add: demo_gui_def demo_thread_def isRunning_def)

lemma demo_env_ram: "ram (core demo_env) = [1, 2]"
  by (simp add: demo_env_def demo_core_def)

section \<open>ActionEncoder\<close>

lemmas key_codes =
  Key_W_def Key_A_def Key_S_def Key_D_def Key_O_def Key_P_def Key_Return_def Key_Space_def

lemma key_mapping_values:
  "key_mapping k = Some v \<Longrightarrow> v \<in> {1, 2, 4, 8, 16, 32, 64, 128}"
  by (auto simp: key_mapping_def key_mapping_items_def split: if_splits)

lemma key_mapping_take_bit: "key_mapping k = Some v \<Longrightarrow> take_bit 8 v = v"
  by (drule key_mapping_values) auto

lemma bit_fold_update_action_body:
  "bit (fold update_action_body ks a) n \<longleftrightarrow>
     bit a n \<or> (\<exists>k\<in>set ks. \<exists>v. key_mapping k = Some v \<and> bit v n)"
  by (induction ks arbitrary: a)
     (auto simp: update_action_body_def bit_or_iff split: option.splits)

lemma take_bit_fold_update_action_body:
  "take_bit 8 a = a \<Longrightarrow>
     take_bit 8 (fold update_action_body ks a) = fold update_action_body ks a"
  by (induction ks arbitrary: a)
     (auto simp: update_action_body_def key_mapping_take_bit split: option.splits)

lemma action_of_keys_range: "0 \<le> action_of_keys ks \<and> action_of_keys ks < 256"
proof -
  have "take_bit 8 (action_of_keys ks) = action_of_keys ks"
    unfolding action_of_keys_def by (rule take_bit_fold_update_action_body) simp
  then show ?thesis by (simp add: take_bit_int_eq_self_iff)
qed

lemma dom_key_mapping:
  "dom key_mapping = {Key_W, Key_A, Key_S, Key_D, Key_O, Key_P, Key_Return, Key_Space}"
  by (auto simp: key_mapping_def key_mapping_items_def dom_map_of_conv_image_fst)

lemma card_dom_key_mapping: "card (dom key_mapping) = 8"
  by (simp add: dom_key_mapping key_codes)

lemma ran_key_mapping: "ran key_mapping = {1, 2, 4, 8, 16, 32, 64, 128}"
  unfolding key_mapping_def key_mapping_items_def
  by (subst ran_distinct) (auto simp: key_codes)

lemma powers_of_two_below_8: "(\<lambda>i. (2::int) ^ i) ` {0..<8} = {1, 2, 4, 8, 16, 32, 64, 128}"
proof -
  have "{0..<8::nat} = {0, 1, 2, 3, 4, 5, 6, 7}" by auto
  then show ?thesis by simp
qed

lemma inj_on_key_mapping: "inj_on key_mapping (dom key_mapping)"
  unfolding dom_key_mapping
  by (simp add: key_mapping_def key_mapping_items_def key_codes)

lemma update_action_fields:
  "current_action (update_action g) = action_of_keys (pressed_keys g)"
  "emulation_thread g = Some t \<Longrightarrow>
     emulation_thread (update_action g)
       = Some (t\<lparr>t_current_action := action_of_keys (pressed_keys g)\<rparr>)"
  by (simp_all add: update_action_def set_action_def Let_def)

text \<open>
  Claim C7. Whatever keys are held and in whatever order the set is visited, bit \<open>n\<close> of
  the action that \<open>update_action\<close> stores is set exactly when some held key is in the
  mapping table with a value that has bit \<open>n\<close> set: the action is the bitwise OR of the
  values of the held keys that are mapped, and keys outside the table add nothing. With
  no key held the action is 0. The action fits in 8 bits. The table has exactly 8
  entries, on 8 different keys, and their values are the 8 powers of two
  \<open>2 ^ 0, ..., 2 ^ 7\<close>, each key with a value of its own.
\<close>

theorem update_action_is_or_of_held_mapped_keys:
  "(\<forall>n. bit (current_action (update_action g)) n \<longleftrightarrow>
          (\<exists>k\<in>set (pressed_keys g). \<exists>v. key_mapping k = Some v \<and> bit v n))
   \<and> current_action (update_action (g\<lparr>pressed_keys := []\<rparr>)) = 0
   \<and> 0 \<le> current_action (update_action g) \<and> current_action (update_action g) < 256
   \<and> map_option t_current_action (emulation_thread (update_action g))
       = map_option (\<lambda>t. current_action (update_action g)) (emulation_thread g)
   \<and> length key_mapping_items = 8
   \<and> card (dom key_mapping) = 8
   \<and> ran key_mapping = (\<lambda>i. 2 ^ i) ` {0..<8}
   \<and> inj_on key_mapping (dom key_mapping)"
proof -
  have a: "\<forall>n. bit (current_action (update_action g)) n \<longleftrightarrow>
          (\<exists>k\<in>set (pressed_keys g). \<exists>v. key_mapping k = Some v \<and> bit v n)"
    by (simp add: update_action_fields action_of_keys_def bit_fold_update_action_body)
  have b: "current_action (update_action (g\<lparr>pressed_keys := []\<rparr>)) = 0"
    by (simp add: update_action_fields action_of_keys_def)
  have c: "0 \<le> current_action (update_action g) \<and> current_action (update_action g) < 256"
    by (simp add: update_action_fields action_of_keys_range)
  have d: "map_option t_current_action (emulation_thread (update_action g))
       = map_option (\<lambda>t. current_action (update_action g)) (emulation_thread g)"
    by (cases "emulation_thread g") (simp_all add: update_action_def set_action_def Let_def)
  have e: "length key_mapping_items = 8" by (simp add: key_mapping_items_def)
  show ?thesis
    using a b c d e card_dom_key_mapping inj_on_key_mapping
    by (simp add: ran_key_mapping powers_of_two_below_8)
qed

section \<open>EmulationScheduler\<close>

text \<open>
  Claim C8. \<open>set_fastforward_speed\<close> stores \<open>max 1 speed\<close>: a request below 1 is stored
  as 1, and the stored multiplier is at least 1 (the constructor stores 2). The frame
  interval of a loop iteration is the base interval divided by the multiplier while
  fastforward is on and the base interval while it is off; an iteration of a running,
  unpaused loop whose core is live steps the core exactly when that interval has passed
  since the last accepted tick. The thread is one whose multiplier is at least 1, as it
  is on every thread the code builds.
\<close>

theorem fastforward_speed_clamped_and_interval:
  assumes "running t" and "\<not> paused t" and "env t = Some e" and "\<not> env_done e"
    and "fastforward_speed t \<ge> 1"
  shows "fastforward_speed (set_fastforward_speed speed t) = max 1 speed
   \<and> fastforward_speed (set_fastforward_speed speed t) \<ge> 1
   \<and> (speed < 1 \<longrightarrow> fastforward_speed (set_fastforward_speed speed t) = 1)
   \<and> fastforward_speed (EmulationThread now0 rom) = 2
   \<and> current_frame_duration t
       = (if fastforward t then frame_duration t / fastforward_speed t else frame_duration t)
   \<and> current_frame_duration (set_fastforward_speed speed (t\<lparr>fastforward := True\<rparr>))
       = frame_duration t / max 1 speed
   \<and> run_iteration pf t
       = (if clock t - last_frame_time t
               \<ge> (if fastforward t then frame_duration t / fastforward_speed t
                  else frame_duration t)
          then run_tick pf (clock t) e t else sleep_1ms t)"
  using assms
  by (simp add: set_fastforward_speed_def current_frame_duration_def EmulationThread_def
      run_iteration_def)

theorem fastforward_speed_clamped_and_interval_witness:
  "fastforward_speed (set_fastforward_speed (1 / 2) demo_thread) = 1
   \<and> current_frame_duration (set_fastforward_speed 4 (demo_thread\<lparr>fastforward := True\<rparr>)) = 1 / 240
   \<and> run_iteration demo_platform demo_thread = run_tick demo_platform 1 demo_env demo_thread"
proof -
  have h: "running demo_thread" "\<not> paused demo_thread" "env demo_thread = Some demo_env"
    "\<not> env_done demo_env" "fastforward_speed demo_thread \<ge> 1"
    by (simp_all add: demo_defs)
  have v: "frame_duration demo_thread = 1 / 60" "clock demo_thread = 1"
    "last_frame_time demo_thread = 0" "\<not> fastforward demo_thread"
    by (simp_all add: demo_defs)
  from fastforward_speed_clamped_and_interval [OF h, of "1 / 2" 0 "''x''" demo_platform]
    fastforward_speed_clamped_and_interval [OF h, of 4 0 "''x''" demo_platform]
  show ?thesis using v by simp
qed

text \<open>
  Claim C5. With no ROM loaded (\<open>rom_path\<close> is \<open>None\<close> or empty), \<open>start_emulation\<close> returns
  at once: it shows the warning "No ROM", once, and changes nothing else; no thread is
  created and the one the window holds, if any, is the same as before.
\<close>

theorem start_without_rom_warns:
  assumes "\<not> rom_loaded g"
  shows "start_emulation pf g
      = Some (notify (MsgWarning ''No ROM'' ''Please load a ROM file first.'') g)
    \<and> (\<forall>g'. start_emulation pf g = Some g' \<longrightarrow>
          emulation_thread g' = emulation_thread g
          \<and> events g' = events g @ [MsgWarning ''No ROM'' ''Please load a ROM file first.'']
          \<and> state_slots g' = state_slots g \<and> files g' = files g)"
  using assms
  by (auto simp: start_emulation_def rom_loaded_def notify_def split: option.splits)

theorem start_without_rom_warns_witness:
  "\<not> rom_loaded (demo_gui\<lparr>rom_path := None, emulation_thread := None\<rparr>)
   \<and> start_emulation demo_platform (demo_gui\<lparr>rom_path := None, emulation_thread := None\<rparr>)
       = Some (notify (MsgWarning ''No ROM'' ''Please load a ROM file first.'')
                 (demo_gui\<lparr>rom_path := None, emulation_thread := None\<rparr>))"
  using start_without_rom_warns [of "demo_gui\<lparr>rom_path := None, emulation_thread := None\<rparr>" demo_platform]
  by (simp add: rom_loaded_def)

section \<open>StateSnapshotStore\<close>

lemma state_slots_restore_backup: "state_slots (restore_backup h) = state_slots h"
  by (simp add: restore_backup_def split: option.splits)

lemma live_env_restore_backup: "live_env (restore_backup h) = map_option nes_restore (live_env h)"
  by (simp add: restore_backup_def live_env_def split: option.splits)

lemma live_env_frame:
  "live_env (notify ev h) = live_env h"
  "live_env (h\<lparr>state_slots := slots\<rparr>) = live_env h"
  "live_env (h\<lparr>files := fs\<rparr>) = live_env h"
  by (simp_all add: live_env_def notify_def)

lemma state_slots_notify: "state_slots (notify ev h) = state_slots h"
  by (simp add: notify_def)

lemma dialog_apply_effect:
  "live_env (load_state_from_file_dialog_apply pf path sd h) = map_option nes_restore (live_env h)"
  "state_slots (load_state_from_file_dialog_apply pf path sd h) = (state_slots h)(0 \<mapsto> sd)"
  by (simp_all add: load_state_from_file_dialog_apply_def live_env_frame state_slots_notify
      live_env_restore_backup state_slots_restore_backup)

lemma dialog_restores_backup:
  assumes "is_emulation_running h" and "path \<noteq> []"
    and "load_state_from_file (files h) path = Inr sd"
    and "sd_rom_path sd = rom_path h \<or> (sd_rom_path sd \<noteq> None \<and> user = Some Yes)"
  shows "live_env (load_state_from_file_dialog pf path user h)
           = map_option nes_restore (live_env h)"
    and "state_slots (load_state_from_file_dialog pf path user h) = (state_slots h)(0 \<mapsto> sd)"
  using assms
  by (auto simp: load_state_from_file_dialog_def question_def Let_def dialog_apply_effect
        live_env_frame state_slots_notify)

lemma dialog_without_recorded_rom:
  assumes "is_emulation_running h" and "path \<noteq> []"
    and "load_state_from_file (files h) path = Inr sd"
    and "sd_rom_path sd = None" and "rom_path h \<noteq> None"
  shows "load_state_from_file_dialog pf path user h
     = notify (MsgCritical ''Load Error'' ''Failed to load state from file: ''
                 (TypeError ''basename'')) h"
  using assms by (auto simp: load_state_from_file_dialog_def)



text \<open>
  A file that records no ROM path, in a session that has a ROM: the code shows
  "Load Error", asks nothing and applies nothing.
\<close>

lemma dialog_on_anonymous_file:
  "load_state_from_file_dialog demo_platform ''a.state'' (Some Yes) demo_gui_with_anonymous_file
     = notify (MsgCritical ''Load Error'' ''Failed to load state from file: ''
                 (TypeError ''basename'')) demo_gui_with_anonymous_file"
  by (rule dialog_without_recorded_rom [where sd = "\<lparr>sd_rom_path = None, sd_screen = None,
          sd_ram = Some [5, 6], sd_controllers = Some ([1], [0]), sd_done = Some True,
          sd_timestamp = 0\<rparr>"])
     (simp_all add: demo_gui_with_anonymous_file_def anonymous_file_def zelda_file_def
        load_state_from_file_def demo_defs is_emulation_running_def isRunning_def)

lemma save_state_try_effect:
  assumes "env t = Some e"
  shows "\<exists>err h. save_state_try pf slot t g = (err, h)
     \<and> emulation_thread h = Some (t\<lparr>env := Some (nes_backup e)\<rparr>)
     \<and> state_slots h = (state_slots g)(slot \<mapsto>
          \<lparr>sd_rom_path = rom_path g, sd_screen = Some (screen (core e)),
           sd_ram = Some (ram (core e)), sd_controllers = Some (controllers (core e)),
           sd_done = Some (env_done e), sd_timestamp = now g\<rparr>)"
  using assms
  by (auto simp: save_state_try_def capture_emulator_state_def nes_backup_def Let_def
        get_state_filename_def save_state_to_file_def notify_def
      split: option.splits write_outcome.splits)

lemma save_state_running:
  assumes "emulation_thread g = Some t" and "isRunning t" and "env t = Some e"
  shows "emulation_thread (save_state pf slot g) = Some (t\<lparr>env := Some (nes_backup e)\<rparr>)
     \<and> state_slots (save_state pf slot g) = (state_slots g)(slot \<mapsto>
          \<lparr>sd_rom_path = rom_path g, sd_screen = Some (screen (core e)),
           sd_ram = Some (ram (core e)), sd_controllers = Some (controllers (core e)),
           sd_done = Some (env_done e), sd_timestamp = now g\<rparr>)"
proof -
  from save_state_try_effect [OF assms(3), of pf slot g]
  obtain err h where h: "save_state_try pf slot t g = (err, h)"
     "emulation_thread h = Some (t\<lparr>env := Some (nes_backup e)\<rparr>)"
     "state_slots h = (state_slots g)(slot \<mapsto>
          \<lparr>sd_rom_path = rom_path g, sd_screen = Some (screen (core e)),
           sd_ram = Some (ram (core e)), sd_controllers = Some (controllers (core e)),
           sd_done = Some (env_done e), sd_timestamp = now g\<rparr>)"
    by blast
  show ?thesis
    using assms(1,2) h
    by (cases err) (simp_all add: save_state_def notify_def)
qed

lemma load_state_present:
  assumes "emulation_thread g = Some t" and "isRunning t" and "env t = Some e"
    and "slot \<in> dom (state_slots g)"
  shows "load_state pf slot g
     = notify (StatusMessage (''State loaded from slot '' @ str_of_int pf slot))
         (g\<lparr>emulation_thread := Some (t\<lparr>env := Some (nes_restore e)\<rparr>)\<rparr>)"
  using assms
  by (simp add: load_state_def is_emulation_running_def restore_backup_def)

lemma load_state_absent:
  assumes "is_emulation_running g" and "slot \<notin> dom (state_slots g)"
  shows "load_state pf slot g
     = notify (MsgWarning ''Limited Functionality''
                  ''File-based savestate loading is limited. For full functionality, save and load states within the same session using slots 1-4.'') g"
  using assms by (simp add: load_state_def)

lemma core_advanced_to_running:
  assumes "emulation_thread g = Some t" and "env t = Some e"
  shows "emulation_thread (core_advanced_to c g) = Some (t\<lparr>env := Some (e\<lparr>core := c\<rparr>)\<rparr>)"
    and "state_slots (core_advanced_to c g) = state_slots g"
  using assms by (simp_all add: core_advanced_to_def)

lemma demo_backup_ram: "ram (core (nes_restore demo_env)) = [9, 9]"
  by (simp add: nes_restore_def demo_env_def demo_core_def)

lemma live_ram_of_env: "live_env h = Some e \<Longrightarrow> live_ram h = Some (ram (core e))"
  by (simp add: live_ram_def)

lemma demo_files_kept:
  "files (core_advanced_to c2 (save_state demo_platform 2
      (core_advanced_to c1 (save_state demo_platform 1 demo_gui_with_file)))) ''z.state''
     = Some (Pickled zelda_file)"
  by (simp add: core_advanced_to_def save_state_def save_state_try_def capture_emulator_state_def
      get_state_filename_def save_state_to_file_def notify_def nes_backup_def Let_def
      demo_gui_with_file_def demo_defs isRunning_def)


lemma demo_gui_with_file_thread:
  "emulation_thread demo_gui_with_file = Some demo_thread"
  by (simp add: demo_gui_with_file_def demo_gui_def)

text \<open>
  Claim C1, as the code has it. No path applies the RAM image or the controller states
  of a serialized record to the live session. A record written by \<open>save_state_to_file\<close>
  and read back by \<open>load_state_from_file\<close> has the ROM path, RAM image, controller
  states, terminal flag and timestamp that were saved (and no screen).
  \<open>restore_emulator_state_from_data\<close>, the one routine that applies file data, and which
  nothing in gui.py calls, sets the terminal flag of the session to the recorded one and
  nothing else: the RAM image, the screen, the controllers, the registers of the core and
  its backup are what they were. \<open>load_state\<close> on a slot that is not in memory applies
  nothing and shows the warning "Limited Functionality". \<open>load_state_from_file_dialog\<close>,
  when the ROM paths agree or the user answers Yes to the question about a recorded path
  that differs, puts the record read into slot 0 and invokes the native restore, so the
  core becomes its latest native backup; it applies no field of the record.
\<close>

theorem degraded_restore_applies_only_done:
  assumes "emulation_thread g = Some t" and "isRunning t" and "env t = Some e"
    and "write_outcome_of pf filename = WriteOk" and "filename \<noteq> []"
  shows "let fs = snd (save_state_to_file pf sd filename (files g));
             loaded = sd\<lparr>sd_screen := None\<rparr>;
             g1 = g\<lparr>files := fs\<rparr>
     in load_state_from_file fs filename = Inr loaded
      \<and> (\<exists>g'. save_load_apply pf sd filename g = Inr g'
            \<and> live_env g' = Some (case sd_done sd of None \<Rightarrow> e | Some d \<Rightarrow> e\<lparr>env_done := d\<rparr>)
            \<and> map_option core (live_env g') = Some (core e)
            \<and> map_option backup_core (live_env g') = Some (backup_core e)
            \<and> live_ram g' = Some (ram (core e))
            \<and> map_option env_done (live_env g')
                = Some (case sd_done sd of None \<Rightarrow> env_done e | Some d \<Rightarrow> d)
            \<and> state_slots g' = state_slots g)
      \<and> (slot \<notin> dom (state_slots g) \<longrightarrow>
            load_state pf slot g1
              = notify (MsgWarning ''Limited Functionality''
                  ''File-based savestate loading is limited. For full functionality, save and load states within the same session using slots 1-4.'') g1)
      \<and> (sd_rom_path sd = rom_path g \<or> (sd_rom_path sd \<noteq> None \<and> user = Some Yes) \<longrightarrow>
            live_env (load_state_from_file_dialog pf filename user g1) = Some (nes_restore e)
            \<and> state_slots (load_state_from_file_dialog pf filename user g1)
                = (state_slots g)(0 \<mapsto> loaded))"
proof -
  let ?fs = "snd (save_state_to_file pf sd filename (files g))"
  let ?loaded = "sd\<lparr>sd_screen := None\<rparr>"
  let ?g1 = "g\<lparr>files := ?fs\<rparr>"
  have a: "load_state_from_file ?fs filename = Inr ?loaded"
    using assms(4) by (simp add: save_state_to_file_def load_state_from_file_def Let_def)
  have b: "\<exists>g'. save_load_apply pf sd filename g = Inr g'
          \<and> live_env g' = Some (case sd_done sd of None \<Rightarrow> e | Some d \<Rightarrow> e\<lparr>env_done := d\<rparr>)
          \<and> map_option core (live_env g') = Some (core e)
          \<and> map_option backup_core (live_env g') = Some (backup_core e)
          \<and> live_ram g' = Some (ram (core e))
          \<and> map_option env_done (live_env g')
              = Some (case sd_done sd of None \<Rightarrow> env_done e | Some d \<Rightarrow> d)
          \<and> state_slots g' = state_slots g"
    using assms(1,3,4)
    by (auto simp: save_load_apply_def save_state_to_file_def load_state_from_file_def Let_def
          restore_emulator_state_from_data_def live_env_def live_ram_def notify_def
        split: option.splits)
  have r: "is_emulation_running ?g1"
    using assms(1,2) by (simp add: is_emulation_running_def)
  have c: "load_state pf slot ?g1
              = notify (MsgWarning ''Limited Functionality''
                  ''File-based savestate loading is limited. For full functionality, save and load states within the same session using slots 1-4.'') ?g1"
    if "slot \<notin> dom (state_slots g)"
    by (rule load_state_absent [OF r]) (use that in simp)
  have d: "live_env (load_state_from_file_dialog pf filename user ?g1) = Some (nes_restore e)
            \<and> state_slots (load_state_from_file_dialog pf filename user ?g1)
                = (state_slots g)(0 \<mapsto> ?loaded)"
    if m: "sd_rom_path sd = rom_path g \<or> (sd_rom_path sd \<noteq> None \<and> user = Some Yes)"
  proof -
    have l: "load_state_from_file (files ?g1) filename = Inr ?loaded"
      using a by simp
    have m': "sd_rom_path ?loaded = rom_path ?g1 \<or> (sd_rom_path ?loaded \<noteq> None \<and> user = Some Yes)"
      using m by simp
    have e: "live_env ?g1 = Some e" using assms(1,3) by (simp add: live_env_def)
    show ?thesis
      using dialog_restores_backup [OF r assms(5) l m', of pf] e by simp
  qed
  show ?thesis unfolding Let_def using a b c d by blast
qed

theorem degraded_restore_applies_only_done_witness:
  "live_ram demo_gui = Some [1, 2] \<and> sd_ram earlier_snapshot = Some [5, 6]
   \<and> (\<exists>g'. save_load_apply demo_platform earlier_snapshot ''s.state'' demo_gui = Inr g'
         \<and> live_ram g' = Some [1, 2] \<and> map_option env_done (live_env g') = Some True)
   \<and> live_ram (load_state_from_file_dialog demo_platform ''s.state'' None
        (demo_gui\<lparr>files := snd (save_state_to_file demo_platform earlier_snapshot ''s.state''
                                   (files demo_gui))\<rparr>)) = Some [9, 9]
   \<and> state_slots (load_state_from_file_dialog demo_platform ''s.state'' None
        (demo_gui\<lparr>files := snd (save_state_to_file demo_platform earlier_snapshot ''s.state''
                                   (files demo_gui))\<rparr>)) 0
       = Some (earlier_snapshot\<lparr>sd_screen := None\<rparr>)
   \<and> live_ram (load_state_from_file_dialog demo_platform ''s.state'' (Some Yes)
        (demo_gui\<lparr>files := snd (save_state_to_file demo_platform zelda_snapshot ''s.state''
                                   (files demo_gui))\<rparr>)) = Some [9, 9]
   \<and> events (load_state demo_platform 3
        (demo_gui\<lparr>files := snd (save_state_to_file demo_platform earlier_snapshot ''s.state''
                                   (files demo_gui))\<rparr>))
       = [MsgWarning ''Limited Functionality''
            ''File-based savestate loading is limited. For full functionality, save and load states within the same session using slots 1-4.'']"
proof -
  let ?g1 = "demo_gui\<lparr>files := snd (save_state_to_file demo_platform earlier_snapshot ''s.state''
                                   (files demo_gui))\<rparr>"
  let ?g2 = "demo_gui\<lparr>files := snd (save_state_to_file demo_platform zelda_snapshot ''s.state''
                                   (files demo_gui))\<rparr>"
  have h4: "write_outcome_of demo_platform ''s.state'' = WriteOk"
    by (simp add: demo_platform_def)
  have h5: "''s.state'' \<noteq> []" by simp
  have a: "live_ram demo_gui = Some [1, 2]"
    by (simp add: live_ram_def live_env_def demo_gui_thread demo_env_ram)
  have c: "sd_ram earlier_snapshot = Some [5, 6]" "sd_done earlier_snapshot = Some True"
    "sd_rom_path earlier_snapshot = rom_path demo_gui"
    by (simp_all add: earlier_snapshot_def demo_gui_def)
  have z: "sd_rom_path zelda_snapshot \<noteq> None" by (simp add: zelda_snapshot_def)
  have n: "(3::int) \<notin> dom (state_slots demo_gui)" "events demo_gui = []"
    by (simp_all add: demo_gui_def)
  note w1 = degraded_restore_applies_only_done
         [OF demo_gui_thread h4 h5, where sd = earlier_snapshot and user = None and slot = 3,
          unfolded Let_def]
  note w2 = degraded_restore_applies_only_done
         [OF demo_gui_thread h4 h5, where sd = zelda_snapshot and user = "Some Yes" and slot = 3,
          unfolded Let_def]
  from w1 have p1: "\<exists>g'. save_load_apply demo_platform earlier_snapshot ''s.state'' demo_gui = Inr g'
          \<and> live_ram g' = Some (ram (core demo_env))
          \<and> map_option env_done (live_env g')
              = Some (case sd_done earlier_snapshot of None \<Rightarrow> env_done demo_env | Some d \<Rightarrow> d)"
    by blast
  from w1 c(3) have p2: "live_env (load_state_from_file_dialog demo_platform ''s.state'' None ?g1)
        = Some (nes_restore demo_env)"
    and p3: "state_slots (load_state_from_file_dialog demo_platform ''s.state'' None ?g1)
        = (state_slots demo_gui)(0 \<mapsto> earlier_snapshot\<lparr>sd_screen := None\<rparr>)"
    by blast+
  from w2 z have p4: "live_env (load_state_from_file_dialog demo_platform ''s.state'' (Some Yes) ?g2)
        = Some (nes_restore demo_env)"
    by blast
  from w1 n(1) have p5: "load_state demo_platform 3 ?g1
       = notify (MsgWarning ''Limited Functionality''
            ''File-based savestate loading is limited. For full functionality, save and load states within the same session using slots 1-4.'') ?g1"
    by blast
  have q5: "events (load_state demo_platform 3 ?g1)
       = [MsgWarning ''Limited Functionality''
            ''File-based savestate loading is limited. For full functionality, save and load states within the same session using slots 1-4.'']"
    unfolding p5 using n(2) by (simp add: notify_def)
  show ?thesis
    using a c(1,2) p1 demo_env_ram live_ram_of_env [OF p2] live_ram_of_env [OF p4] p3 q5
      demo_backup_ram
    by simp
qed

text \<open>
  The claim as the spec states it fails: the session has the RAM image \<open>[1, 2]\<close>, the
  record saved, loaded and applied has \<open>[5, 6]\<close>, and afterwards the session still has
  \<open>[1, 2]\<close>.
\<close>

theorem degraded_restore_leaves_ram_counterexample:
  "map_sum id live_ram (save_load_apply demo_platform earlier_snapshot ''s.state'' demo_gui)
      = Inr (Some [1, 2])
   \<and> sd_ram earlier_snapshot = Some [5, 6]
   \<and> map_sum id live_ram (save_load_apply demo_platform earlier_snapshot ''s.state'' demo_gui)
      \<noteq> Inr (sd_ram earlier_snapshot)"
  by (simp add: save_load_apply_def save_state_to_file_def load_state_from_file_def Let_def
        restore_emulator_state_from_data_def live_env_def live_ram_def notify_def
        demo_gui_def demo_thread_def demo_env_def demo_core_def demo_platform_def
        earlier_snapshot_def)

text \<open>
  Claim C2. In a running session whose core handle is allocated, for a slot \<open>n\<close> among
  1, 2, 3, 4, \<open>save_state n\<close> followed by \<open>load_state n\<close> takes the native path (the slot
  is in memory, so \<open>_restore\<close> is invoked on the backup \<open>_backup\<close> has made) and leaves the
  core as it was at the save: the same RAM image, screen and controller states, and the
  same terminal flag. No call from the window lies between the two; the loop thread may
  have stepped the core on to any state \<open>c\<close> in the meantime, and the load brings the core
  of the save back. This holds whether or not the file write of the save succeeds.
\<close>

theorem save_then_load_roundtrip:
  assumes "emulation_thread g = Some t" and "isRunning t" and "env t = Some e"
    and "slot \<in> {1, 2, 3, 4}"
  shows "live_env (load_state pf slot (save_state pf slot g)) = Some (nes_restore (nes_backup e))
    \<and> core (nes_restore (nes_backup e)) = core e
    \<and> ram (core (nes_restore (nes_backup e))) = ram (core e)
    \<and> screen (core (nes_restore (nes_backup e))) = screen (core e)
    \<and> controllers (core (nes_restore (nes_backup e))) = controllers (core e)
    \<and> env_done (nes_restore (nes_backup e)) = env_done e
    \<and> map_option sd_ram (state_slots (save_state pf slot g) slot) = Some (Some (ram (core e)))
    \<and> events (load_state pf slot (save_state pf slot g))
        = events (save_state pf slot g)
            @ [StatusMessage (''State loaded from slot '' @ str_of_int pf slot)]
    \<and> map_option core (live_env (core_advanced_to c (save_state pf slot g))) = Some c
    \<and> live_env (load_state pf slot (core_advanced_to c (save_state pf slot g)))
        = Some (nes_restore (nes_backup e))"
proof -
  let ?g1 = "save_state pf slot g"
  let ?g2 = "core_advanced_to c ?g1"
  let ?t1 = "t\<lparr>env := Some (nes_backup e)\<rparr>"
  let ?e2 = "(nes_backup e)\<lparr>core := c\<rparr>"
  let ?t2 = "?t1\<lparr>env := Some ?e2\<rparr>"
  from save_state_running [OF assms(1,2,3), of pf slot]
  have s: "emulation_thread ?g1 = Some ?t1"
    and d: "state_slots ?g1 = (state_slots g)(slot \<mapsto>
          \<lparr>sd_rom_path = rom_path g, sd_screen = Some (screen (core e)),
           sd_ram = Some (ram (core e)), sd_controllers = Some (controllers (core e)),
           sd_done = Some (env_done e), sd_timestamp = now g\<rparr>)"
    by blast+
  have r: "isRunning ?t1" "isRunning ?t2"
    using assms(2) by (simp_all add: isRunning_def)
  have m: "slot \<in> dom (state_slots ?g1)" by (simp add: d)
  have l: "load_state pf slot ?g1
     = notify (StatusMessage (''State loaded from slot '' @ str_of_int pf slot))
         (?g1\<lparr>emulation_thread :=
              Some (?t1\<lparr>env := Some (nes_restore (nes_backup e))\<rparr>)\<rparr>)"
    by (rule load_state_present [OF s r(1) _ m]) simp
  have s2: "emulation_thread ?g2 = Some ?t2" and d2: "state_slots ?g2 = state_slots ?g1"
    by (simp_all add: core_advanced_to_running [OF s])
  have m2: "slot \<in> dom (state_slots ?g2)" using m d2 by simp
  have l2: "live_env (load_state pf slot ?g2) = Some (nes_restore ?e2)"
    by (subst load_state_present [OF s2 r(2) _ m2]) (simp_all add: live_env_def notify_def)
  have v: "nes_restore ?e2 = nes_restore (nes_backup e)"
    by (simp add: nes_restore_def nes_backup_def)
  have b2: "map_option core (live_env ?g2) = Some c"
    by (simp add: live_env_def s2)
  show ?thesis
    using l2 v b2
    by (simp add: l d notify_def live_env_def nes_restore_def nes_backup_def)
qed

theorem save_then_load_roundtrip_witness:
  "live_ram (core_advanced_to (demo_core\<lparr>ram := [7, 7]\<rparr>) (save_state demo_platform 2 demo_gui))
     = Some [7, 7]
   \<and> live_ram (load_state demo_platform 2
        (core_advanced_to (demo_core\<lparr>ram := [7, 7]\<rparr>) (save_state demo_platform 2 demo_gui)))
     = Some [1, 2]
   \<and> live_ram (load_state demo_platform 2 (save_state demo_platform 2 demo_gui)) = live_ram demo_gui
   \<and> map_option env_done (live_env (load_state demo_platform 2 (save_state demo_platform 2 demo_gui)))
       = map_option env_done (live_env demo_gui)
   \<and> live_ram demo_gui = Some [1, 2]"
proof -
  let ?c = "demo_core\<lparr>ram := [7, 7]\<rparr>"
  let ?h = "core_advanced_to ?c (save_state demo_platform 2 demo_gui)"
  have h: "(2::int) \<in> {1, 2, 3, 4}" by simp
  have a: "live_env demo_gui = Some demo_env"
    by (simp add: live_env_def demo_gui_thread)
  note w = save_then_load_roundtrip [OF demo_gui_thread h, of demo_platform ?c]
  from w have p1: "map_option core (live_env ?h) = Some ?c"
    and p2: "live_env (load_state demo_platform 2 ?h) = Some (nes_restore (nes_backup demo_env))"
    and p3: "live_env (load_state demo_platform 2 (save_state demo_platform 2 demo_gui))
        = Some (nes_restore (nes_backup demo_env))"
    and p4: "ram (core (nes_restore (nes_backup demo_env))) = ram (core demo_env)"
      "env_done (nes_restore (nes_backup demo_env)) = env_done demo_env"
    by blast+
  have q1: "live_ram ?h = Some [7, 7]"
    using p1 by (cases "live_env ?h") (simp_all add: live_ram_def)
  show ?thesis
    using q1 live_ram_of_env [OF p2] live_ram_of_env [OF p3] live_ram_of_env [OF a] p3 p4 a
      demo_env_ram
    by simp
qed

text \<open>
  Claim C3. The core has one backup, whatever the slot. Every \<open>save_state\<close> overwrites it
  with the live core. Save slot \<open>s1\<close>, let the core run on to \<open>c1\<close>, save slot \<open>s2\<close>, let
  the core run on to \<open>c2\<close>: the backup holds \<open>c1\<close>, and loading slot \<open>s1\<close> makes the core
  \<open>c1\<close>, the state at the latest save, although the record kept in slot \<open>s1\<close> (when
  \<open>s1\<close> is another slot than \<open>s2\<close>) is that of the state at its own save. Loading
  \<open>s1\<close> and loading \<open>s2\<close> give the same core, and so does \<open>load_state_from_file_dialog\<close>
  when the user answers Yes, on any file that records a ROM path.
\<close>

theorem single_backup_shared_by_all_slots:
  assumes "emulation_thread g = Some t" and "isRunning t" and "env t = Some e"
  shows "let h = core_advanced_to c2 (save_state pf s2 (core_advanced_to c1 (save_state pf s1 g)))
     in map_option backup_core (live_env (save_state pf s1 g)) = Some (core e)
      \<and> map_option backup_core (live_env h) = Some c1
      \<and> map_option core (live_env h) = Some c2
      \<and> map_option core (live_env (load_state pf s1 h)) = Some c1
      \<and> (s1 \<noteq> s2 \<longrightarrow> map_option sd_ram (state_slots h s1) = Some (Some (ram (core e))))
      \<and> live_env (load_state pf s1 h) = live_env (load_state pf s2 h)
      \<and> (path \<noteq> [] \<and> load_state_from_file (files h) path = Inr sd \<and> sd_rom_path sd \<noteq> None \<longrightarrow>
           live_env (load_state_from_file_dialog pf path (Some Yes) h)
             = live_env (load_state pf s1 h))"
proof -
  let ?g1 = "save_state pf s1 g"
  let ?g2 = "core_advanced_to c1 ?g1"
  let ?g3 = "save_state pf s2 ?g2"
  let ?g4 = "core_advanced_to c2 ?g3"
  let ?t1 = "t\<lparr>env := Some (nes_backup e)\<rparr>"
  let ?e2 = "(nes_backup e)\<lparr>core := c1\<rparr>"
  let ?t2 = "?t1\<lparr>env := Some ?e2\<rparr>"
  let ?t3 = "?t2\<lparr>env := Some (nes_backup ?e2)\<rparr>"
  let ?e4 = "(nes_backup ?e2)\<lparr>core := c2\<rparr>"
  let ?t4 = "?t3\<lparr>env := Some ?e4\<rparr>"
  from save_state_running [OF assms, of pf s1]
  have t1: "emulation_thread ?g1 = Some ?t1"
    and d1: "state_slots ?g1 s1 \<noteq> None"
      "map_option sd_ram (state_slots ?g1 s1) = Some (Some (ram (core e)))"
    by simp_all
  have t2: "emulation_thread ?g2 = Some ?t2" and d2: "state_slots ?g2 = state_slots ?g1"
    by (simp_all add: core_advanced_to_running [OF t1])
  have r2: "isRunning ?t2" using assms(2) by (simp add: isRunning_def)
  from save_state_running [OF t2 r2, of ?e2 pf s2]
  have t3: "emulation_thread ?g3 = Some ?t3"
    and d3: "state_slots ?g3 s2 \<noteq> None" "s1 \<noteq> s2 \<Longrightarrow> state_slots ?g3 s1 = state_slots ?g2 s1"
    by simp_all
  have t4: "emulation_thread ?g4 = Some ?t4" and d4: "state_slots ?g4 = state_slots ?g3"
    by (simp_all add: core_advanced_to_running [OF t3])
  have r4: "isRunning ?t4" using assms(2) by (simp add: isRunning_def)
  have e4: "live_env ?g4 = Some ?e4" by (simp add: live_env_def t4)
  have in1: "s1 \<in> dom (state_slots ?g4)"
    using d1 d2 d3 d4 by (cases "s1 = s2") auto
  have in2: "s2 \<in> dom (state_slots ?g4)"
    using d3 d4 by auto
  have l1: "live_env (load_state pf s1 ?g4) = Some (nes_restore ?e4)"
    by (subst load_state_present [OF t4 r4 _ in1]) (simp_all add: live_env_def notify_def)
  have l2: "live_env (load_state pf s2 ?g4) = Some (nes_restore ?e4)"
    by (subst load_state_present [OF t4 r4 _ in2]) (simp_all add: live_env_def notify_def)
  have v: "nes_restore ?e4 = e\<lparr>backup_core := c1, core := c1\<rparr>"
    "backup_core ?e4 = c1" "core ?e4 = c2"
    by (simp_all add: nes_restore_def nes_backup_def)
  have b: "map_option backup_core (live_env ?g1) = Some (core e)"
    by (simp add: live_env_def t1 nes_backup_def)
  have run4: "is_emulation_running ?g4"
    using r4 by (simp add: is_emulation_running_def t4)
  have f: "path \<noteq> [] \<and> load_state_from_file (files ?g4) path = Inr sd \<and> sd_rom_path sd \<noteq> None \<longrightarrow>
           live_env (load_state_from_file_dialog pf path (Some Yes) ?g4)
             = live_env (load_state pf s1 ?g4)"
    using dialog_restores_backup(1) [OF run4, of path sd "Some Yes" pf] by (simp add: l1 e4)
  show ?thesis
    unfolding Let_def using b l1 l2 v d1 d2 d3(2) d4 f e4 by simp
qed

theorem single_backup_shared_by_all_slots_witness:
  "live_ram (load_state demo_platform 1
      (core_advanced_to (demo_core\<lparr>ram := [8, 8]\<rparr>) (save_state demo_platform 2
         (core_advanced_to (demo_core\<lparr>ram := [7, 7]\<rparr>)
            (save_state demo_platform 1 demo_gui_with_file)))))
     = Some [7, 7]
   \<and> map_option sd_ram (state_slots
      (core_advanced_to (demo_core\<lparr>ram := [8, 8]\<rparr>) (save_state demo_platform 2
         (core_advanced_to (demo_core\<lparr>ram := [7, 7]\<rparr>)
            (save_state demo_platform 1 demo_gui_with_file)))) 1)
     = Some (Some [1, 2])
   \<and> live_ram (load_state_from_file_dialog demo_platform ''z.state'' (Some Yes)
      (core_advanced_to (demo_core\<lparr>ram := [8, 8]\<rparr>) (save_state demo_platform 2
         (core_advanced_to (demo_core\<lparr>ram := [7, 7]\<rparr>)
            (save_state demo_platform 1 demo_gui_with_file)))))
     = Some [7, 7]"
proof -
  let ?h = "core_advanced_to (demo_core\<lparr>ram := [8, 8]\<rparr>) (save_state demo_platform 2
         (core_advanced_to (demo_core\<lparr>ram := [7, 7]\<rparr>)
            (save_state demo_platform 1 demo_gui_with_file)))"
  let ?sd = "\<lparr>sd_rom_path = Some ''zelda.nes'', sd_screen = None, sd_ram = Some [5, 6],
              sd_controllers = Some ([1], [0]), sd_done = Some True, sd_timestamp = 0\<rparr>"
  have n: "(1::int) \<noteq> 2" by simp
  have p: "''z.state'' \<noteq> []" by simp
  have l: "load_state_from_file (files ?h) ''z.state'' = Inr ?sd"
    by (simp add: load_state_from_file_def demo_files_kept zelda_file_def)
  have r: "sd_rom_path ?sd \<noteq> None" by simp
  note w = single_backup_shared_by_all_slots
      [OF demo_gui_with_file_thread demo_gui_thread(2,3),
      where ?c1.0 = "demo_core\<lparr>ram := [7, 7]\<rparr>" and ?c2.0 = "demo_core\<lparr>ram := [8, 8]\<rparr>"
        and pf = demo_platform and ?s1.0 = 1 and ?s2.0 = 2 and path = "''z.state''" and sd = ?sd,
      unfolded Let_def]
  from w have c: "map_option core (live_env (load_state demo_platform 1 ?h))
      = Some (demo_core\<lparr>ram := [7, 7]\<rparr>)"
    by blast
  from w n have d: "map_option sd_ram (state_slots ?h 1) = Some (Some (ram (core demo_env)))"
    by blast
  from w p l r have e: "live_env (load_state_from_file_dialog demo_platform ''z.state'' (Some Yes) ?h)
      = live_env (load_state demo_platform 1 ?h)"
    by blast
  have k: "live_ram x = map_option ram (map_option core (live_env x))" for x
    by (cases "live_env x") (simp_all add: live_ram_def)
  have "live_ram (load_state demo_platform 1 ?h) = Some [7, 7]"
    unfolding k c by simp
  moreover have "live_ram (load_state_from_file_dialog demo_platform ''z.state'' (Some Yes) ?h)
      = Some [7, 7]"
    unfolding k e c by simp
  ultimately show ?thesis using d demo_env_ram by simp
qed

text \<open>
  Claim C4, evaluated where the code departs from it. Slot 1 holds a record with the RAM
  image \<open>[5, 6]\<close>; the session has \<open>[1, 2]\<close>; \<open>open\<close> raises. \<open>save_state 1\<close> shows the
  error box "Save Error" and leaves the files as they were, but slot 1 now holds the
  record just captured: the assignment to the slot comes before the write.
  \<open>save_state_to_file_dialog\<close>, which writes first, leaves its slot 0 as it was.
\<close>

theorem save_state_write_failure_overwrites_slot:
  "map_option sd_ram (state_slots demo_gui_slot1 1) = Some (Some [5, 6])
   \<and> map_option sd_ram (state_slots (save_state readonly_platform 1 demo_gui_slot1) 1)
       = Some (Some [1, 2])
   \<and> state_slots (save_state readonly_platform 1 demo_gui_slot1) 1 \<noteq> state_slots demo_gui_slot1 1
   \<and> files (save_state readonly_platform 1 demo_gui_slot1) = files demo_gui_slot1
   \<and> events (save_state readonly_platform 1 demo_gui_slot1)
       = [MsgCritical ''Save Error'' ''Failed to save state: '' (OSError ''states/mario_slot_I.state'')]
   \<and> state_slots (save_state_to_file_dialog readonly_platform ''x.state''
         (demo_gui\<lparr>state_slots := [0 \<mapsto> earlier_snapshot]\<rparr>)) 0 = Some earlier_snapshot"
  by (simp add: save_state_def save_state_try_def capture_emulator_state_def nes_backup_def
      get_state_filename_def save_state_to_file_def notify_def save_state_to_file_dialog_def
      readonly_platform_def demo_gui_slot1_def earlier_snapshot_def demo_defs isRunning_def Let_def)

section \<open>Stopping the loop thread\<close>

lemma thread_advance_keeps_spinning:
  assumes "\<forall>a e. \<exists>r. env_step pf a e = Inr r"
    and "thread_phase t = Looping" and "running t"
  shows "thread_phase (thread_advance pf t) = Looping \<and> running (thread_advance pf t)"
proof -
  have tick: "thread_phase (run_tick pf c e t) = Looping \<and> running (run_tick pf c e t)" for c e
  proof -
    from assms(1) obtain e1 over where "env_step pf (t_current_action t) e = Inr (e1, over)"
      by (metis surj_pair)
    then show ?thesis using assms(2,3) by (simp add: run_tick_def Let_def)
  qed
  show ?thesis
    using assms(2,3) tick
    by (simp add: thread_advance_def run_iteration_def sleep_1ms_def Let_def split: option.splits)
qed

lemma wait_unbounded_not_spinning:
  assumes w: "wait_unbounded pf t = Some y" and n: "\<forall>a e. \<exists>r. env_step pf a e = Inr r"
  shows "\<not> (thread_phase t = Looping \<and> running t)"
proof -
  have "(\<forall>a e. \<exists>r. env_step pf a e = Inr r) \<longrightarrow> \<not> (thread_phase t = Looping \<and> running t)"
  proof (rule wait_unbounded.raw_induct
      [where P = "\<lambda>pf t y. (\<forall>a e. \<exists>r. env_step pf a e = Inr r)
                     \<longrightarrow> \<not> (thread_phase t = Looping \<and> running t)", OF _ w])
    fix w' :: "platform \<Rightarrow> emulation_thread \<Rightarrow> emulation_thread option"
    fix pf t y
    assume IH: "\<And>p b y. w' p b = Some y \<Longrightarrow>
        (\<forall>a e. \<exists>r. env_step p a e = Inr r) \<longrightarrow> \<not> (thread_phase b = Looping \<and> running b)"
      and eq: "(if \<not> isRunning t then Some t else w' pf (thread_advance pf t)) = Some y"
    show "(\<forall>a e. \<exists>r. env_step pf a e = Inr r) \<longrightarrow> \<not> (thread_phase t = Looping \<and> running t)"
    proof (intro impI notI)
      assume n': "\<forall>a e. \<exists>r. env_step pf a e = Inr r"
        and s: "thread_phase t = Looping \<and> running t"
      from s have "isRunning t" by (simp add: isRunning_def)
      with eq have "w' pf (thread_advance pf t) = Some y" by simp
      from IH [OF this] n'
      have "\<not> (thread_phase (thread_advance pf t) = Looping \<and> running (thread_advance pf t))"
        by blast
      with thread_advance_keeps_spinning [OF n'] s show False by blast
    qed
  qed
  with n show ?thesis by blast
qed

lemma wait_at_most_keeps_spinning:
  assumes "\<forall>a e. \<exists>r. env_step pf a e = Inr r"
  shows "thread_phase t = Looping \<and> running t \<Longrightarrow>
     thread_phase (wait_at_most pf n t) = Looping \<and> running (wait_at_most pf n t)"
proof (induction n arbitrary: t)
  case 0
  then show ?case by simp
next
  case (Suc n)
  from Suc.prems have "isRunning t" by (simp add: isRunning_def)
  moreover from thread_advance_keeps_spinning [OF assms] Suc.prems
  have "thread_phase (thread_advance pf t) = Looping \<and> running (thread_advance pf t)"
    by blast
  ultimately show ?case using Suc.IH by simp
qed

lemma stop_during_start_never_returns:
  assumes "\<forall>a e. \<exists>r. env_step pf a e = Inr r"
    and "thread_phase t = Starting" and "NESEnv pf (t_rom_path t) = Inr e0"
  shows "stop pf t = None"
proof (rule ccontr)
  assume "stop pf t \<noteq> None"
  then obtain y where y: "wait_unbounded pf (t\<lparr>running := False\<rparr>) = Some y"
    by (auto simp: stop_def)
  let ?t1 = "thread_advance pf (t\<lparr>running := False\<rparr>)"
  have "isRunning (t\<lparr>running := False\<rparr>)" using assms(2) by (simp add: isRunning_def)
  with y have "wait_unbounded pf ?t1 = Some y"
    by (subst (asm) wait_unbounded.simps) simp
  from wait_unbounded_not_spinning [OF this assms(1)]
  show False using assms(2,3) by (simp add: thread_advance_def run_prologue_def)
qed

lemma stop_in_loop_returns:
  assumes "thread_phase t = Looping"
  shows "stop pf t = Some (run_finally (t\<lparr>running := False\<rparr>))"
proof -
  have a: "isRunning (t\<lparr>running := False\<rparr>)" using assms by (simp add: isRunning_def)
  have b: "thread_advance pf (t\<lparr>running := False\<rparr>) = run_finally (t\<lparr>running := False\<rparr>)"
    using assms by (simp add: thread_advance_def run_iteration_def)
  have c: "\<not> isRunning (run_finally (t\<lparr>running := False\<rparr>))"
    by (simp add: run_finally_def isRunning_def)
  show ?thesis
    unfolding stop_def
    by (subst wait_unbounded.simps, simp add: a b, subst wait_unbounded.simps, simp add: c)
qed

text \<open>
  Claim C6, evaluated where the code departs from it. \<open>stop\<close> clears \<open>running\<close> and then
  calls \<open>wait()\<close> with no timeout. Called on a thread that has been started and whose
  \<open>run\<close> has not yet reached \<open>self.running = True\<close>, the flag it cleared is set again by
  \<open>run\<close>, the loop never ends, and \<open>stop\<close> never returns; so \<open>stop_emulation\<close> never
  returns either, and its \<open>wait(2000)\<close> is not reached. (A wait of 2000 ms on that thread
  would have come back with the thread still in its loop.) On a thread that is in its
  loop, \<open>stop\<close> returns once the loop has seen the flag.
\<close>

theorem stop_has_no_timeout:
  "stop demo_platform started_thread = None
   \<and> stop_emulation demo_platform (demo_gui\<lparr>emulation_thread := Some started_thread\<rparr>) = None
   \<and> thread_phase (wait_ms demo_platform 2000 (started_thread\<lparr>running := False\<rparr>)) = Looping
   \<and> stop demo_platform demo_thread = Some (run_finally (demo_thread\<lparr>running := False\<rparr>))"
proof -
  have n: "\<forall>a e. \<exists>r. env_step demo_platform a e = Inr r" by (auto simp: demo_platform_def)
  have p: "thread_phase started_thread = Starting"
    by (simp add: started_thread_def thread_start_def EmulationThread_def isRunning_def)
  have e: "NESEnv demo_platform (t_rom_path started_thread) = Inr demo_env"
    by (simp add: demo_platform_def)
  have a: "stop demo_platform started_thread = None"
    by (rule stop_during_start_never_returns [OF n p e])
  have b: "stop_emulation demo_platform (demo_gui\<lparr>emulation_thread := Some started_thread\<rparr>) = None"
    by (simp add: stop_emulation_def a)
  have d: "stop demo_platform demo_thread = Some (run_finally (demo_thread\<lparr>running := False\<rparr>))"
    by (rule stop_in_loop_returns) (simp add: demo_thread_def)
  let ?t0 = "started_thread\<lparr>running := False\<rparr>"
  have g: "thread_phase (thread_advance demo_platform ?t0) = Looping
      \<and> running (thread_advance demo_platform ?t0)"
    using p e by (simp add: thread_advance_def run_prologue_def)
  have "wait_ms demo_platform 2000 ?t0 = wait_at_most demo_platform (Suc 1999) ?t0"
    by (simp add: wait_ms_def demo_platform_def)
  also have "\<dots> = wait_at_most demo_platform 1999 (thread_advance demo_platform ?t0)"
  proof -
    have "isRunning ?t0" using p by (simp add: isRunning_def)
    then show ?thesis by (simp only: wait_at_most.simps not_True_eq_False if_False)
  qed
  finally have f: "thread_phase (wait_ms demo_platform 2000 ?t0) = Looping"
    using wait_at_most_keeps_spinning [OF n, of "thread_advance demo_platform ?t0" 1999] g
    by simp
  show ?thesis using a b d f by simp
qed

section \<open>AudioStreamPipeline\<close>

lemma first_pass_fold:
  "fold (\<lambda>i a. a[i := 0.6 * a ! i + 0.4 * a ! (i - 1)])
        [Suc (length pre)..<Suc (length pre) + length xs] (pre @ p # xs)
     = pre @ p # spec_pass1_from p xs"
proof (induction xs arbitrary: pre p)
  case Nil
  then show ?case by simp
next
  case (Cons x xs)
  let ?y = "0.6 * x + 0.4 * p"
  have u: "[Suc (length pre)..<Suc (length pre) + length (x # xs)]
      = Suc (length pre) # [Suc (length (pre @ [p]))..<Suc (length (pre @ [p])) + length xs]"
    by (subst upt_conv_Cons) simp_all
  have st: "(pre @ p # x # xs)[Suc (length pre) := 0.6 * (pre @ p # x # xs) ! Suc (length pre)
                + 0.4 * (pre @ p # x # xs) ! (Suc (length pre) - 1)]
      = (pre @ [p]) @ ?y # xs"
    by (simp add: nth_append list_update_append)
  show ?case
    unfolding u using Cons.IH [of "pre @ [p]" ?y]
    by (simp only: fold.simps o_apply st) simp
qed

lemma first_pass_eq: "first_pass xs = spec_pass1 xs"
proof (cases xs)
  case Nil
  then show ?thesis by (simp add: first_pass_def)
next
  case (Cons x ys)
  have "[1..<length xs] = [Suc (length ([]::real list))..<Suc (length ([]::real list)) + length ys]"
    by (simp add: Cons del: upt_Suc)
  with first_pass_fold [of "[]" ys x] show ?thesis
    by (simp add: first_pass_def Cons del: upt_Suc)
qed

lemma second_pass_fold:
  "fold (\<lambda>i a. a[i := 0.7 * a ! i + 0.3 * a ! (i - 2)])
        [Suc (Suc (length pre))..<Suc (Suc (length pre)) + length xs] (pre @ p2 # p1 # xs)
     = pre @ p2 # p1 # spec_pass2_from p2 p1 xs"
proof (induction xs arbitrary: pre p2 p1)
  case Nil
  then show ?case by simp
next
  case (Cons x xs)
  let ?y = "0.7 * x + 0.3 * p2"
  let ?i = "Suc (Suc (length pre))"
  have u: "[?i..<?i + length (x # xs)]
      = ?i # [Suc (Suc (length (pre @ [p2])))..<Suc (Suc (length (pre @ [p2]))) + length xs]"
    by (subst upt_conv_Cons) simp_all
  have st: "(pre @ p2 # p1 # x # xs)[?i := 0.7 * (pre @ p2 # p1 # x # xs) ! ?i
                + 0.3 * (pre @ p2 # p1 # x # xs) ! (?i - 2)]
      = (pre @ [p2]) @ p1 # ?y # xs"
    by (simp add: nth_append list_update_append)
  show ?case
    unfolding u using Cons.IH [of "pre @ [p2]" p1 ?y]
    by (simp only: fold.simps o_apply st) simp
qed

lemma second_pass_eq: "second_pass xs = spec_pass2 xs"
proof (cases xs)
  case Nil
  then show ?thesis by (simp add: second_pass_def)
next
  case outer: (Cons a as)
  show ?thesis
  proof (cases as)
    case Nil
    with outer show ?thesis by (simp add: second_pass_def)
  next
    case (Cons b ys)
    with outer have xs: "xs = a # b # ys" by simp
    have "[2..<length xs]
        = [Suc (Suc (length ([]::real list)))..<Suc (Suc (length ([]::real list))) + length ys]"
      by (simp add: xs numeral_2_eq_2 del: upt_Suc)
    with second_pass_fold [of "[]" ys a b] show ?thesis
      by (simp add: second_pass_def xs del: upt_Suc)
  qed
qed

lemma np_clip_bounded: "list_all (\<lambda>x. \<bar>x\<bar> \<le> 1) (np_clip xs (-1) 1)"
  by (induction xs) (simp_all add: np_clip_def abs_le_iff)

lemma spec_pass1_from_bounded:
  "\<bar>p\<bar> \<le> 1 \<Longrightarrow> list_all (\<lambda>x. \<bar>x\<bar> \<le> 1) xs \<Longrightarrow>
     list_all (\<lambda>x. \<bar>x\<bar> \<le> 1) (spec_pass1_from p xs)"
proof (induction xs arbitrary: p)
  case Nil
  then show ?case by simp
next
  case (Cons x xs)
  then have "\<bar>x\<bar> \<le> 1" by simp
  with Cons.prems(1) have y: "\<bar>0.6 * x + 0.4 * p\<bar> \<le> 1" by (simp add: abs_le_iff)
  from Cons.IH [OF y] Cons.prems(2) y show ?case by simp
qed

lemma spec_pass1_bounded:
  "list_all (\<lambda>x. \<bar>x\<bar> \<le> 1) xs \<Longrightarrow> list_all (\<lambda>x. \<bar>x\<bar> \<le> 1) (spec_pass1 xs)"
  by (cases xs) (simp_all add: spec_pass1_from_bounded)

lemma spec_pass2_from_bounded:
  "\<bar>p2\<bar> \<le> 1 \<Longrightarrow> \<bar>p1\<bar> \<le> 1 \<Longrightarrow> list_all (\<lambda>x. \<bar>x\<bar> \<le> 1) xs \<Longrightarrow>
     list_all (\<lambda>x. \<bar>x\<bar> \<le> 1) (spec_pass2_from p2 p1 xs)"
proof (induction xs arbitrary: p2 p1)
  case Nil
  then show ?case by simp
next
  case (Cons x xs)
  then have "\<bar>x\<bar> \<le> 1" by simp
  with Cons.prems(1) have y: "\<bar>0.7 * x + 0.3 * p2\<bar> \<le> 1" by (simp add: abs_le_iff)
  from Cons.IH [OF Cons.prems(2) y] Cons.prems(3) y show ?case by simp
qed

lemma spec_pass2_bounded:
  "list_all (\<lambda>x. \<bar>x\<bar> \<le> 1) xs \<Longrightarrow> list_all (\<lambda>x. \<bar>x\<bar> \<le> 1) (spec_pass2 xs)"
  by (cases xs rule: spec_pass2.cases) (simp_all add: spec_pass2_from_bounded)

lemma length_spec_pass1_from: "length (spec_pass1_from p xs) = length xs"
  by (induction xs arbitrary: p) simp_all

lemma length_spec_pass1: "length (spec_pass1 xs) = length xs"
  by (cases xs) (simp_all add: length_spec_pass1_from)

lemma length_spec_pass2_from: "length (spec_pass2_from p2 p1 xs) = length xs"
  by (induction xs arbitrary: p2 p1) simp_all

lemma length_spec_pass2: "length (spec_pass2 xs) = length xs"
  by (cases xs rule: spec_pass2.cases) (simp_all add: length_spec_pass2_from)

lemma truncate_scaled:
  assumes "\<bar>x\<bar> \<le> 1"
  shows "- 24576 \<le> truncate (x * 24576) \<and> truncate (x * 24576) \<le> 24576"
proof -
  let ?v = "x * 24576"
  from assms have b: "- 24576 \<le> ?v" "?v \<le> 24576" by (simp_all add: abs_le_iff)
  show ?thesis
  proof (cases "?v \<ge> 0")
    case True
    then have t: "truncate ?v = \<lfloor>?v\<rfloor>" by (simp add: truncate_def)
    from True have f1: "0 \<le> \<lfloor>?v\<rfloor>" by simp
    from b(2) have f2: "\<lfloor>?v\<rfloor> \<le> 24576" by (simp add: floor_le_iff)
    show ?thesis unfolding t using f1 f2 by linarith
  next
    case False
    then have t: "truncate ?v = - \<lfloor>- ?v\<rfloor>" by (simp add: truncate_def)
    from False have f1: "0 \<le> \<lfloor>- ?v\<rfloor>" by simp
    from b(1) have f2: "\<lfloor>- ?v\<rfloor> \<le> 24576" by (simp add: floor_le_iff)
    show ?thesis unfolding t using f1 f2 by linarith
  qed
qed

lemma astype_int16_scaled:
  assumes "\<bar>x\<bar> \<le> 1"
  shows "- 24576 \<le> astype_int16 (x * 24576) \<and> astype_int16 (x * 24576) \<le> 24576"
  using truncate_scaled [OF assms] by (simp add: astype_int16_def)

lemma scaled_bounded:
  "list_all (\<lambda>x. \<bar>x\<bar> \<le> 1) xs \<Longrightarrow>
     list_all (\<lambda>y. - 24576 \<le> y \<and> y \<le> 24576) (map (\<lambda>x. astype_int16 (x * 24576)) xs)"
  by (induction xs) (simp_all add: astype_int16_scaled)

lemma spec_pipeline_bounded:
  "list_all (\<lambda>y. - 24576 \<le> y \<and> y \<le> 24576) (spec_pipeline xs)"
  unfolding spec_pipeline_def
  by (intro scaled_bounded spec_pass2_bounded spec_pass1_bounded np_clip_bounded)

text \<open>
  Claim C9, as the code has it. A float chunk is clipped to \<open>[-1, 1]\<close>. If it has more
  than 2 samples, the two smoothing passes of the spec are applied, pass 1 then pass 2;
  a chunk of 2 samples or fewer is not smoothed. Every sample is then multiplied by
  24576, which is below the full scale 32767, and cut to an integer towards zero; the
  results lie between -24576 and 24576, so they fit in 16 bits, and there are as many as
  samples in the chunk.
\<close>

theorem audio_chunk_conversion:
  "to_int16_samples (Float32 xs)
     = (if length xs > 2 then spec_pipeline xs
        else map (\<lambda>x. astype_int16 (x * 24576)) (np_clip xs (-1) 1))
   \<and> (\<forall>x\<in>set (np_clip xs (-1) 1). - 1 \<le> x \<and> x \<le> 1)
   \<and> (\<forall>y\<in>set (to_int16_samples (Float32 xs)). - 24576 \<le> y \<and> y \<le> 24576)
   \<and> length (to_int16_samples (Float32 xs)) = length xs
   \<and> (24576::int) < 32767"
proof -
  have a: "to_int16_samples (Float32 xs)
     = (if length xs > 2 then spec_pipeline xs
        else map (\<lambda>x. astype_int16 (x * 24576)) (np_clip xs (-1) 1))"
    by (simp add: to_int16_samples_def spec_pipeline_def first_pass_eq second_pass_eq Let_def
        np_clip_def)
  have b: "\<forall>x\<in>set (np_clip xs (-1) 1). - 1 \<le> x \<and> x \<le> 1"
    by (auto simp: np_clip_def)
  have c: "\<forall>y\<in>set (to_int16_samples (Float32 xs)). - 24576 \<le> y \<and> y \<le> 24576"
    using spec_pipeline_bounded [of xs] scaled_bounded [OF np_clip_bounded, of xs]
    by (simp add: a list_all_iff)
  have d: "length (to_int16_samples (Float32 xs)) = length xs"
    by (simp add: a spec_pipeline_def length_spec_pass1 length_spec_pass2 np_clip_def)
  show ?thesis using a b c d by simp
qed

theorem audio_chunk_conversion_witness:
  "to_int16_samples (Float32 [1, 0, - 3]) = spec_pipeline [1, 0, - 3]
   \<and> spec_pipeline [1, 0, - 3] = [24576, 9830, - 196]"
proof -
  have e: "spec_pipeline [1, 0, - 3] = [24576, 9830, - 196]"
    by (simp add: spec_pipeline_def np_clip_def astype_int16_def truncate_def)
  from audio_chunk_conversion [of "[1, 0, - 3]"] e show ?thesis by simp
qed

text \<open>
  The claim as the spec states it fails on the chunk \<open>[1.0, 0.0]\<close>: pass 1 would replace
  the second sample by \<open>0.4\<close>, which scales to 9830; the code leaves it 0.
\<close>

theorem short_chunk_not_smoothed_counterexample:
  "to_int16_samples (Float32 [1, 0]) = [24576, 0]
   \<and> spec_pipeline [1, 0] = [24576, 9830]
   \<and> to_int16_samples (Float32 [1, 0]) \<noteq> spec_pipeline [1, 0]"
  by (simp add: to_int16_samples_def spec_pipeline_def np_clip_def astype_int16_def truncate_def)

end
